theory Spec2Isabelle
  imports Complex_Main "HOL-Library.List_Lexorder" "HOL-Library.Product_Lexorder"
    "HOL-Library.AList" "HOL-Library.Multiset"
begin

section \<open>Python values\<close>

subsection \<open>Strings\<close>

text \<open>
  A Python \<open>str\<close> is a sequence of Unicode code points, so it is modelled as a list of
  natural numbers; \<open>ascii\<close> writes an ASCII literal. The order on strings that
  \<open>sorted\<close> uses is the lexicographic order on code points.
\<close>

type_synonym pystr = "nat list"

definition ascii :: "string \<Rightarrow> pystr" where
  "ascii s = map of_char s"

text \<open>\<open>str.isspace\<close> for one code point (the interpreter's whitespace table).\<close>

definition isspace :: "nat \<Rightarrow> bool" where
  "isspace c = ((9 \<le> c \<and> c \<le> 13) \<or> (28 \<le> c \<and> c \<le> 32) \<or> c = 133 \<or> c = 160
      \<or> c = 5760 \<or> (8192 \<le> c \<and> c \<le> 8202) \<or> c = 8232 \<or> c = 8233 \<or> c = 8239
      \<or> c = 8287 \<or> c = 12288)"

definition strip :: "pystr \<Rightarrow> pystr" where
  "strip s = rev (dropWhile isspace (rev (dropWhile isspace s)))"

text \<open>\<open>s.count(sub)\<close>: the occurrences of \<open>sub\<close> in \<open>s\<close>, scanned from the left without overlap.\<close>

function py_count :: "pystr \<Rightarrow> pystr \<Rightarrow> nat" where
  "py_count s sub =
     (if sub = [] then length s + 1
      else if length s < length sub then 0
      else if take (length sub) s = sub then 1 + py_count (drop (length sub) s) sub
      else py_count (tl s) sub)"
  by pat_completeness auto
termination
proof (relation "measure (\<lambda>(s, sub). length s)")
  fix s sub :: pystr
  assume "sub \<noteq> []" and "\<not> length s < length sub"
  then have "0 < length sub" and "length sub \<le> length s"
    by simp_all
  then show "((drop (length sub) s, sub), (s, sub)) \<in> measure (\<lambda>(s, sub). length s)"
    and "((tl s, sub), (s, sub)) \<in> measure (\<lambda>(s, sub). length s)"
    by (simp_all del: length_greater_0_conv)
qed simp

declare py_count.simps [simp del]

text \<open>The decimal text of an integer, as \<open>str\<close> and \<open>json.dumps\<close> write it.\<close>

fun str_nat :: "nat \<Rightarrow> pystr" where
  "str_nat n = (if n < 10 then [48 + n] else str_nat (n div 10) @ [48 + n mod 10])"

declare str_nat.simps [simp del]

definition str_int :: "int \<Rightarrow> pystr" where
  "str_int i = (if i < 0 then 45 # str_nat (nat (- i)) else str_nat (nat i))"

subsection \<open>Errors\<close>

datatype py_error = KeyError | IndexError | ValueError | AttributeError | HTTPError | RuntimeError

subsection \<open>JSON values\<close>

text \<open>
  What \<open>json\<close> decodes a response body to: \<open>None\<close>, booleans, integers, strings, lists
  and dictionaries. A dictionary keeps its insertion order and has one entry per key, so
  it is an association list. (Floating-point numbers are left out.)
\<close>

datatype json =
    JNull
  | JBool bool
  | JInt int
  | JStr pystr
  | JList "json list"
  | JDict "(pystr \<times> json) list"

type_synonym pydict = "(pystr \<times> json) list"

text \<open>Truth value of a Python object, as \<open>if x\<close>, \<open>not x\<close> and \<open>x or y\<close> test it.\<close>

fun truthy :: "json \<Rightarrow> bool" where
  "truthy JNull = False"
| "truthy (JBool b) = b"
| "truthy (JInt i) = (i \<noteq> 0)"
| "truthy (JStr s) = (s \<noteq> [])"
| "truthy (JList xs) = (xs \<noteq> [])"
| "truthy (JDict kvs) = (kvs \<noteq> [])"

definition py_or :: "json \<Rightarrow> json \<Rightarrow> json" where
  "py_or a b = (if truthy a then a else b)"

text \<open>\<open>d.get(k)\<close>: the value, or \<open>None\<close> when the key is absent.\<close>

definition dget :: "pydict \<Rightarrow> pystr \<Rightarrow> json" where
  "dget d k = (case map_of d k of None \<Rightarrow> JNull | Some v \<Rightarrow> v)"

text \<open>
  \<open>str(x)\<close>. For a list or a dictionary Python prints its \<open>repr\<close>, which depends on the
  interpreter's table of printable characters; the model takes that function as the
  parameter \<open>R\<close>.
\<close>

fun py_str :: "(json \<Rightarrow> pystr) \<Rightarrow> json \<Rightarrow> pystr" where
  "py_str R JNull = ascii ''None''"
| "py_str R (JBool b) = (if b then ascii ''True'' else ascii ''False'')"
| "py_str R (JInt i) = str_int i"
| "py_str R (JStr s) = s"
| "py_str R (JList xs) = R (JList xs)"
| "py_str R (JDict kvs) = R (JDict kvs)"

subsection \<open>\<open>json.dumps(x, ensure_ascii=False)\<close>\<close>

definition hex_digit :: "nat \<Rightarrow> nat" where
  "hex_digit d = (if d < 10 then 48 + d else 87 + d)"

text \<open>
  Inside a string literal the quote, the backslash and the control characters below
  U+0020 are escaped; every other code point is written as it is.
\<close>

definition escape_char :: "nat \<Rightarrow> pystr" where
  "escape_char c =
     (if c = 34 then [92, 34]
      else if c = 92 then [92, 92]
      else if c = 10 then [92, 110]
      else if c = 13 then [92, 114]
      else if c = 9 then [92, 116]
      else if c = 8 then [92, 98]
      else if c = 12 then [92, 102]
      else if c < 32 then [92, 117, 48, 48, hex_digit (c div 16), hex_digit (c mod 16)]
      else [c])"

definition dumps_str :: "pystr \<Rightarrow> pystr" where
  "dumps_str s = [34] @ concat (map escape_char s) @ [34]"

fun dumps :: "json \<Rightarrow> pystr"
  and dumps_elems :: "json list \<Rightarrow> pystr"
  and dumps_members :: "(pystr \<times> json) list \<Rightarrow> pystr" where
  "dumps JNull = ascii ''null''"
| "dumps (JBool b) = (if b then ascii ''true'' else ascii ''false'')"
| "dumps (JInt i) = str_int i"
| "dumps (JStr s) = dumps_str s"
| "dumps (JList xs) = [91] @ dumps_elems xs @ [93]"
| "dumps (JDict kvs) = [123] @ dumps_members kvs @ [125]"
| "dumps_elems [] = []"
| "dumps_elems [x] = dumps x"
| "dumps_elems (x # y # ys) = dumps x @ [44, 32] @ dumps_elems (y # ys)"
| "dumps_members [] = []"
| "dumps_members [(k, v)] = dumps_str k @ [58, 32] @ dumps v"
| "dumps_members ((k, v) # kv # kvs) =
     dumps_str k @ [58, 32] @ dumps v @ [44, 32] @ dumps_members (kv # kvs)"

section \<open>Dates and wall-clock instants\<close>

text \<open>
  A Python \<open>date\<close> is modelled by its day number (\<open>date.toordinal()\<close>), so that adding a
  \<open>timedelta(days=n)\<close> is integer addition and \<open>(a - b).days\<close> is integer subtraction.
  A naive \<open>datetime\<close> is its date together with hour, minute, second and microsecond;
  Python compares two naive datetimes field by field, most significant first.
\<close>

record datetime =
  dt_day :: int
  dt_hour :: nat
  dt_minute :: nat
  dt_second :: nat
  dt_micro :: nat

definition dt_key :: "datetime \<Rightarrow> int \<times> nat \<times> nat \<times> nat \<times> nat" where
  "dt_key t = (dt_day t, dt_hour t, dt_minute t, dt_second t, dt_micro t)"

definition dt_less :: "datetime \<Rightarrow> datetime \<Rightarrow> bool" where
  "dt_less a b = (dt_key a < dt_key b)"

text \<open>\<open>datetime.combine(d, time(h, m, s))\<close>.\<close>

definition dt_combine :: "int \<Rightarrow> nat \<Rightarrow> nat \<Rightarrow> nat \<Rightarrow> datetime" where
  "dt_combine d h m s = \<lparr>dt_day = d, dt_hour = h, dt_minute = m, dt_second = s, dt_micro = 0\<rparr>"

subsection \<open>The 06:00 availability rule\<close>

text \<open>
  \<open>services._latest_available_block_date\<close> and \<open>app.latest_available_blacklist_date\<close>;
  the value of \<open>datetime.now()\<close> is the argument.
\<close>

definition latest_available_block_date :: "datetime \<Rightarrow> int" where
  "latest_available_block_date now =
     (let cutoff = dt_combine (dt_day now) 6 0 0
      in if dt_less now cutoff then dt_day now - 2 else dt_day now - 1)"

definition latest_available_blacklist_date :: "datetime \<Rightarrow> int" where
  "latest_available_blacklist_date now =
     (let cutoff = dt_combine (dt_day now) 6 0 0
      in if dt_less now cutoff then dt_day now - 2 else dt_day now - 1)"

section \<open>Snapshot selector\<close>

text \<open>The marker token whose occurrences are the cost of a candidate.\<close>

definition drop_rate_marker :: pystr where
  "drop_rate_marker = [36947, 20855, 25481, 33853, 29575]"

definition count_drop_rate_mentions :: "pystr \<Rightarrow> nat" where
  "count_drop_rate_mentions raw_json_text =
     (if raw_json_text = [] then 0 else py_count raw_json_text drop_rate_marker)"

definition k_item_equipment :: pystr where
  "k_item_equipment = ascii ''item_equipment''"

definition k_item_equipment_slot :: pystr where
  "k_item_equipment_slot = ascii ''item_equipment_slot''"

definition k_item_equipment_part :: pystr where
  "k_item_equipment_part = ascii ''item_equipment_part''"

definition k_preset_no :: pystr where
  "k_preset_no = ascii ''preset_no''"

definition preset_keys :: "(nat \<times> pystr) list" where
  "preset_keys =
     [(1, ascii ''item_equipment_preset_1''),
      (2, ascii ''item_equipment_preset_2''),
      (3, ascii ''item_equipment_preset_3'')]"

text \<open>\<open>_slot_key\<close>: the slot of an item, or its part when it has no slot, trimmed.\<close>

definition slot_key :: "(json \<Rightarrow> pystr) \<Rightarrow> pydict \<Rightarrow> pystr" where
  "slot_key R it =
     strip (py_str R (py_or (py_or (dget it k_item_equipment_slot)
                                   (dget it k_item_equipment_part)) (JStr [])))"

text \<open>
  The two loops of \<open>_merge_items\<close>: every dictionary item with a non-empty slot key is
  stored under that key, a later item replacing an earlier one in place.
\<close>

fun put_items :: "(json \<Rightarrow> pystr) \<Rightarrow> json list \<Rightarrow> (pystr \<times> json) list \<Rightarrow> (pystr \<times> json) list" where
  "put_items R [] merged = merged"
| "put_items R (JDict d # its) merged =
     (let k = slot_key R d
      in if k \<noteq> [] then put_items R its (AList.update k (JDict d) merged)
         else put_items R its merged)"
| "put_items R (_ # its) merged = put_items R its merged"

text \<open>\<open>[merged[k] for k in ks]\<close>; indexing a dictionary at a missing key raises.\<close>

fun lookup_all :: "(pystr \<times> json) list \<Rightarrow> pystr list \<Rightarrow> py_error + json list" where
  "lookup_all merged [] = Inr []"
| "lookup_all merged (k # ks) =
     (case map_of merged k of
        None \<Rightarrow> Inl KeyError
      | Some v \<Rightarrow> (case lookup_all merged ks of Inl e \<Rightarrow> Inl e | Inr vs \<Rightarrow> Inr (v # vs)))"

definition merge_items :: "(json \<Rightarrow> pystr) \<Rightarrow> json list \<Rightarrow> json list \<Rightarrow> py_error + json list" where
  "merge_items R base preset =
     (let merged = put_items R preset (put_items R base [])
      in lookup_all merged (sort (map fst merged)))"

text \<open>
  The loop that builds \<open>candidates\<close>: one tuple \<open>(drop_cnt, prefer2_flag, preset_no,
  merged_items)\<close> for each preset key whose value is a non-empty list.
\<close>

type_synonym candidate = "nat \<times> nat \<times> nat \<times> json list"

fun build_candidates :: "(json \<Rightarrow> pystr) \<Rightarrow> pydict \<Rightarrow> json list \<Rightarrow> (nat \<times> pystr) list \<Rightarrow> py_error + candidate list" where
  "build_candidates R equip_json base_items [] = Inr []"
| "build_candidates R equip_json base_items ((no, key) # rest) =
     (case dget equip_json key of
        JList (p # ps) \<Rightarrow>
          (case merge_items R base_items (p # ps) of
             Inl e \<Rightarrow> Inl e
           | Inr merged_items \<Rightarrow>
               (let raw = dumps (JList merged_items);
                    cnt = count_drop_rate_mentions raw
                in case build_candidates R equip_json base_items rest of
                     Inl e \<Rightarrow> Inl e
                   | Inr cs \<Rightarrow> Inr ((cnt, if no = 2 then 0 else 1, no, merged_items) # cs)))
      | _ \<Rightarrow> build_candidates R equip_json base_items rest)"

definition candidate_sort_key :: "candidate \<Rightarrow> nat \<times> nat \<times> nat" where
  "candidate_sort_key x = (case x of (cnt, flag, no, items) \<Rightarrow> (cnt, flag, no))"

definition pick_best_preset_by_lowest_drop_rate :: "(json \<Rightarrow> pystr) \<Rightarrow> pydict \<Rightarrow> py_error + pydict" where
  "pick_best_preset_by_lowest_drop_rate R equip_json =
     (if equip_json = [] then Inr equip_json
      else
        let base_items = (case dget equip_json k_item_equipment of JList xs \<Rightarrow> xs | _ \<Rightarrow> [])
        in case build_candidates R equip_json base_items preset_keys of
             Inl e \<Rightarrow> Inl e
           | Inr candidates \<Rightarrow>
               if candidates = [] then Inr equip_json
               else
                 (case sort_key candidate_sort_key candidates of
                    [] \<Rightarrow> Inl IndexError
                  | (cnt, flag, best_no, best_items) # _ \<Rightarrow>
                      (let trimmed = fold (\<lambda>(no, key) d. AList.delete key d) preset_keys equip_json
                       in Inr (AList.update k_item_equipment (JList best_items)
                                 (AList.update k_preset_no (JInt (int best_no)) trimmed)))))"

subsection \<open>What the merge is meant to compute\<close>

text \<open>
  The slot an item defines: the slot key of a dictionary item, when it is not empty.
  Other items define no slot.
\<close>

definition slot_of :: "(json \<Rightarrow> pystr) \<Rightarrow> json \<Rightarrow> pystr option" where
  "slot_of R it =
     (case it of JDict d \<Rightarrow> (let k = slot_key R d in if k = [] then None else Some k)
      | _ \<Rightarrow> None)"

text \<open>
  A list of items read as a table from slots to items: the item that defines the slot,
  the last one should several items of the list define it.
\<close>

definition slot_table :: "(json \<Rightarrow> pystr) \<Rightarrow> json list \<Rightarrow> pystr \<Rightarrow> json option" where
  "slot_table R xs k =
     (case filter (\<lambda>it. slot_of R it = Some k) xs of [] \<Rightarrow> None | y # ys \<Rightarrow> Some (last (y # ys)))"

definition distinct_slots :: "(json \<Rightarrow> pystr) \<Rightarrow> json list \<Rightarrow> bool" where
  "distinct_slots R xs = distinct (List.map_filter (slot_of R) xs)"

text \<open>The union of two tables in which the candidate's entry wins.\<close>

definition merged_table :: "(json \<Rightarrow> pystr) \<Rightarrow> json list \<Rightarrow> json list \<Rightarrow> pystr \<Rightarrow> json option" where
  "merged_table R base preset = slot_table R base ++ slot_table R preset"

subsection \<open>What the selection is meant to compute\<close>

text \<open>
  The base list and the candidate lists of a record (a value that is not a list counts
  as the empty list), the presets that offer a candidate, the merged candidate of a
  preset and its cost.
\<close>

definition base_items_of :: "pydict \<Rightarrow> json list" where
  "base_items_of equip = (case dget equip k_item_equipment of JList xs \<Rightarrow> xs | _ \<Rightarrow> [])"

definition preset_items_of :: "pydict \<Rightarrow> pystr \<Rightarrow> json list" where
  "preset_items_of equip key = (case dget equip key of JList xs \<Rightarrow> xs | _ \<Rightarrow> [])"

definition present_presets :: "pydict \<Rightarrow> (nat \<times> pystr) list" where
  "present_presets equip = filter (\<lambda>p. preset_items_of equip (snd p) \<noteq> []) preset_keys"

definition candidate_items :: "(json \<Rightarrow> pystr) \<Rightarrow> pydict \<Rightarrow> pystr \<Rightarrow> json list" where
  "candidate_items R equip key =
     (case merge_items R (base_items_of equip) (preset_items_of equip key) of
        Inr out \<Rightarrow> out | Inl e \<Rightarrow> [])"

text \<open>
  The number of occurrences of a token in a text: the number of positions of the text at
  which the token stands. The cost of a candidate is the number of occurrences of the
  marker token in its serialized form.
\<close>

definition occurrences :: "pystr \<Rightarrow> pystr \<Rightarrow> nat" where
  "occurrences sub s =
     length (filter (\<lambda>i. take (length sub) (drop i s) = sub) [0..<length s])"

definition candidate_cost :: "(json \<Rightarrow> pystr) \<Rightarrow> pydict \<Rightarrow> pystr \<Rightarrow> nat" where
  "candidate_cost R equip key =
     occurrences drop_rate_marker (dumps (JList (candidate_items R equip key)))"

text \<open>
  \<open>preferred (c, n) (c', n')\<close>: preset \<open>n\<close> of cost \<open>c\<close> is chosen over preset \<open>n'\<close> of cost
  \<open>c'\<close>: lower cost first, then preset 2, then the lower preset number.
\<close>

definition preferred :: "nat \<times> nat \<Rightarrow> nat \<times> nat \<Rightarrow> bool" where
  "preferred a b =
     (fst a < fst b \<or> (fst a = fst b \<and> (snd a = 2 \<or> (snd b \<noteq> 2 \<and> snd a \<le> snd b))))"

text \<open>The tuple of a preset: its cost, its tie-break flag, its number, its merged candidate.\<close>

definition candidate_of :: "(json \<Rightarrow> pystr) \<Rightarrow> pydict \<Rightarrow> nat \<times> pystr \<Rightarrow> candidate" where
  "candidate_of R equip p =
     (candidate_cost R equip (snd p), if fst p = 2 then 0 else 1, fst p,
      candidate_items R equip (snd p))"

subsection \<open>Example records\<close>

definition no_repr :: "json \<Rightarrow> pystr" where
  "no_repr j = []"

definition ex_item :: "string \<Rightarrow> pystr \<Rightarrow> json" where
  "ex_item slot nm =
     JDict [(k_item_equipment_slot, JStr (ascii slot)), (ascii ''item_name'', JStr nm)]"

definition ex_base :: "json list" where
  "ex_base = [ex_item ''ring'' (ascii ''b1''), ex_item ''cape'' (ascii ''b2'')]"

definition ex_preset :: "json list" where
  "ex_preset = [ex_item ''ring'' (ascii ''p1''), ex_item ''belt'' (ascii ''p2'')]"

definition ex_equip :: pydict where
  "ex_equip =
     [(ascii ''date'', JNull),
      (k_item_equipment, JList ex_base),
      (ascii ''item_equipment_preset_1'', JList [ex_item ''ring'' (ascii ''p1'')]),
      (ascii ''item_equipment_preset_2'', JList [ex_item ''ring'' (ascii ''p2'')]),
      (ascii ''item_equipment_preset_3'', JList [ex_item ''ring'' drop_rate_marker])]"

definition ex_equip_marked :: pydict where
  "ex_equip_marked =
     [(ascii ''date'', JNull),
      (k_item_equipment, JList ex_base),
      (ascii ''item_equipment_preset_1'',
         JList [ex_item ''ring'' (drop_rate_marker @ ascii '' +3 '' @ drop_rate_marker)]),
      (ascii ''item_equipment_preset_2'', JList [ex_item ''ring'' drop_rate_marker]),
      (ascii ''item_equipment_preset_3'', JList [ex_item ''ring'' (ascii ''p3'')])]"

section \<open>Write queue and single writer\<close>

text \<open>
  The writer owns one connection. \<open>conn\<close> is the database as the connection sees it
  (committed and uncommitted changes), \<open>committed\<close> is the database as of the last
  commit, \<open>pending\<close> counts the intents taken since then. Executing a statement either
  raises, and then leaves the database as it was, or yields the changed database; the
  storage engine is the parameter \<open>execute\<close>. A commit is taken to succeed.
\<close>

record 'db writer_state =
  conn :: 'db
  committed :: 'db
  pending :: nat

definition commit :: "'db writer_state \<Rightarrow> 'db writer_state" where
  "commit st = st\<lparr>committed := conn st\<rparr>"

text \<open>
  The queue is the sequence of items the producers put, \<open>None\<close> being the sentinel. When
  it runs empty the writer waits in \<open>write_q.get()\<close>.
\<close>

datatype writer_status = Stopped | Waiting

text \<open>The body of the loop for one intent.\<close>

definition writer_step ::
  "('i \<Rightarrow> 'db \<Rightarrow> 'e + 'db) \<Rightarrow> nat \<Rightarrow> 'i \<Rightarrow> 'db writer_state \<Rightarrow> 'db writer_state" where
  "writer_step execute db_batch item st =
     (let st1 = (case execute item (conn st) of Inl e \<Rightarrow> st | Inr db' \<Rightarrow> st\<lparr>conn := db'\<rparr>);
          st2 = st1\<lparr>pending := pending st1 + 1\<rparr>
      in if pending st2 \<ge> db_batch then (commit st2)\<lparr>pending := 0\<rparr> else st2)"

fun writer_loop ::
  "('i \<Rightarrow> 'db \<Rightarrow> 'e + 'db) \<Rightarrow> nat \<Rightarrow> 'i option list \<Rightarrow> 'db writer_state
     \<Rightarrow> writer_status \<times> 'db writer_state \<times> 'i option list" where
  "writer_loop execute db_batch [] st = (Waiting, st, [])"
| "writer_loop execute db_batch (None # q) st =
     (Stopped, if pending st \<noteq> 0 then commit st else st, q)"
| "writer_loop execute db_batch (Some item # q) st =
     writer_loop execute db_batch q (writer_step execute db_batch item st)"

definition writer_task ::
  "('i \<Rightarrow> 'db \<Rightarrow> 'e + 'db) \<Rightarrow> nat \<Rightarrow> 'i option list \<Rightarrow> 'db
     \<Rightarrow> writer_status \<times> 'db writer_state \<times> 'i option list" where
  "writer_task execute db_batch q db0 =
     writer_loop execute (max 50 db_batch) q \<lparr>conn = db0, committed = db0, pending = 0\<rparr>"

text \<open>Applying one intent to the database, a failing intent leaving it as it is.\<close>

definition apply_or_skip :: "('i \<Rightarrow> 'db \<Rightarrow> 'e + 'db) \<Rightarrow> 'db \<Rightarrow> 'i \<Rightarrow> 'db" where
  "apply_or_skip execute db item = (case execute item db of Inl e \<Rightarrow> db | Inr db' \<Rightarrow> db')"

text \<open>Whenever nothing is pending, nothing is uncommitted.\<close>

definition settled :: "'db writer_state \<Rightarrow> bool" where
  "settled st = (if pending st = 0 then committed st = conn st else True)"

definition ex_execute :: "int \<Rightarrow> int list \<Rightarrow> py_error + int list" where
  "ex_execute item db = (if item < 0 then Inl ValueError else Inr (db @ [item]))"

section \<open>Stored profiles\<close>

text \<open>
  A row of the table \<open>characters\<close>, one column per field, \<open>None\<close> for SQL \<open>NULL\<close>; the
  table is keyed by \<open>ocid\<close>.
\<close>

record character_row =
  character_name :: "pystr option"
  world_name :: "pystr option"
  character_gender :: "pystr option"
  character_class :: "pystr option"
  character_class_level :: "int option"
  character_level :: "int option"
  character_exp :: "int option"
  character_exp_rate :: "real option"
  character_guild_name :: "pystr option"
  character_image :: "pystr option"
  character_date_create :: "pystr option"
  liberation_quest_clear :: "int option"
  access_flag :: "int option"
  updated_at :: "pystr option"

type_synonym characters = "pystr \<rightharpoonup> character_row"

text \<open>SQL \<open>COALESCE(a, b)\<close>.\<close>

definition coalesce :: "'a option \<Rightarrow> 'a option \<Rightarrow> 'a option" where
  "coalesce a b = (case a of None \<Rightarrow> b | Some v \<Rightarrow> Some v)"

text \<open>
  The upsert statement of \<open>services.update_characters\<close>: \<open>excluded\<close> is the row of bound
  parameters. Without a row for the key it is inserted; with one, each column is set as
  the \<open>DO UPDATE SET\<close> list says.
\<close>

definition upsert_update_characters :: "characters \<Rightarrow> pystr \<Rightarrow> character_row \<Rightarrow> characters" where
  "upsert_update_characters tbl ocid excluded =
     (case tbl ocid of
        None \<Rightarrow> tbl(ocid \<mapsto> excluded)
      | Some row \<Rightarrow>
          tbl(ocid \<mapsto> row\<lparr>
            character_name := character_name excluded,
            world_name := world_name excluded,
            character_gender := character_gender excluded,
            character_class := character_class excluded,
            character_class_level := character_class_level excluded,
            character_level := character_level excluded,
            character_exp := character_exp excluded,
            character_exp_rate := character_exp_rate excluded,
            character_guild_name := character_guild_name excluded,
            character_image := character_image excluded,
            character_date_create := character_date_create excluded,
            liberation_quest_clear := liberation_quest_clear excluded,
            access_flag := access_flag excluded,
            updated_at := updated_at excluded\<rparr>))"

text \<open>The upsert statement of \<open>tools_basic_backfill.write_basic_results\<close>.\<close>

definition upsert_write_basic_results :: "characters \<Rightarrow> pystr \<Rightarrow> character_row \<Rightarrow> characters" where
  "upsert_write_basic_results tbl ocid excluded =
     (case tbl ocid of
        None \<Rightarrow> tbl(ocid \<mapsto> excluded)
      | Some row \<Rightarrow>
          tbl(ocid \<mapsto> row\<lparr>
            character_name := character_name excluded,
            world_name := world_name excluded,
            character_gender := coalesce (character_gender excluded) (character_gender row),
            character_class := coalesce (character_class excluded) (character_class row),
            character_class_level :=
              (case character_class_level excluded of
                 Some v \<Rightarrow> if v \<noteq> 0 then Some v else character_class_level row
               | None \<Rightarrow> character_class_level row),
            character_level :=
              (case character_level excluded of
                 Some v \<Rightarrow>
                   if v > (case character_level row of None \<Rightarrow> 0 | Some l \<Rightarrow> l) then Some v
                   else coalesce (character_level row) (Some 0)
               | None \<Rightarrow> coalesce (character_level row) (Some 0)),
            character_exp :=
              (case character_exp excluded of
                 Some v \<Rightarrow>
                   if v > (case character_exp row of None \<Rightarrow> 0 | Some l \<Rightarrow> l) then Some v
                   else coalesce (character_exp row) (Some 0)
               | None \<Rightarrow> coalesce (character_exp row) (Some 0)),
            character_exp_rate := coalesce (character_exp_rate excluded) (character_exp_rate row),
            character_guild_name :=
              coalesce (character_guild_name excluded) (character_guild_name row),
            character_image := coalesce (character_image excluded) (character_image row),
            character_date_create :=
              coalesce (character_date_create excluded) (character_date_create row),
            liberation_quest_clear := liberation_quest_clear excluded,
            access_flag := access_flag excluded,
            updated_at := updated_at excluded\<rparr>))"

text \<open>
  The profile response of the API, decoded: each field is absent or has a value of the
  type the API declares for it (the level and the experience are integers, the other
  fields strings).
\<close>

record basic =
  api_character_name :: "pystr option"
  api_world_name :: "pystr option"
  api_character_gender :: "pystr option"
  api_character_class :: "pystr option"
  api_character_class_level :: "pystr option"
  api_character_level :: "int option"
  api_character_exp :: "int option"
  api_character_exp_rate :: "pystr option"
  api_character_guild_name :: "pystr option"
  api_character_image :: "pystr option"
  api_character_date_create :: "pystr option"
  api_liberation_quest_clear :: "pystr option"
  api_access_flag :: "pystr option"

text \<open>
  \<open>x or d\<close> for a string and for an integer field; \<open>int(x or 0)\<close> and \<open>float(x or 0)\<close> for
  a string field, where the built-in conversion of a string (which may raise) is a
  parameter.
\<close>

definition str_or :: "pystr option \<Rightarrow> pystr \<Rightarrow> pystr" where
  "str_or v d = (case v of None \<Rightarrow> d | Some s \<Rightarrow> if s = [] then d else s)"

definition int_or_0 :: "int option \<Rightarrow> int" where
  "int_or_0 v = (case v of None \<Rightarrow> 0 | Some i \<Rightarrow> if i = 0 then 0 else i)"

definition num_of_str_or_0 :: "(pystr \<Rightarrow> py_error + 'a::zero) \<Rightarrow> pystr option \<Rightarrow> py_error + 'a" where
  "num_of_str_or_0 conv v =
     (case v of None \<Rightarrow> Inr 0 | Some s \<Rightarrow> if s = [] then Inr 0 else conv s)"

text \<open>\<open>_as_access_flag\<close>; \<open>str.lower\<close> is a parameter.\<close>

definition as_access_flag :: "(pystr \<Rightarrow> pystr) \<Rightarrow> pystr option \<Rightarrow> int" where
  "as_access_flag lower v = (if lower (strip (str_or v [])) = ascii ''true'' then 1 else 0)"

text \<open>
  The parameters \<open>update_characters\<close> binds for a profile response; \<open>now\<close> is
  \<open>datetime.now().isoformat()\<close>.
\<close>

definition update_characters_params ::
  "(pystr \<Rightarrow> py_error + int) \<Rightarrow> (pystr \<Rightarrow> py_error + real) \<Rightarrow> (pystr \<Rightarrow> pystr)
     \<Rightarrow> pystr \<Rightarrow> pystr \<Rightarrow> basic \<Rightarrow> pystr \<Rightarrow> py_error + character_row" where
  "update_characters_params int_of_str float_of_str lower name world b now =
     (case num_of_str_or_0 int_of_str (api_character_class_level b) of
        Inl e \<Rightarrow> Inl e
      | Inr class_level \<Rightarrow>
     (case num_of_str_or_0 float_of_str (api_character_exp_rate b) of
        Inl e \<Rightarrow> Inl e
      | Inr exp_rate \<Rightarrow>
     (case num_of_str_or_0 int_of_str (api_liberation_quest_clear b) of
        Inl e \<Rightarrow> Inl e
      | Inr liberation \<Rightarrow>
          Inr \<lparr>character_name = Some (str_or (api_character_name b) name),
               world_name = Some (str_or (api_world_name b) world),
               character_gender = api_character_gender b,
               character_class = api_character_class b,
               character_class_level = Some class_level,
               character_level = Some (int_or_0 (api_character_level b)),
               character_exp = Some (int_or_0 (api_character_exp b)),
               character_exp_rate = Some exp_rate,
               character_guild_name = api_character_guild_name b,
               character_image = api_character_image b,
               character_date_create = api_character_date_create b,
               liberation_quest_clear = Some liberation,
               access_flag = Some (as_access_flag lower (api_access_flag b)),
               updated_at = Some now\<rparr>)))"

text \<open>
  The profile step of a worker followed by the writer's execution of the intent: when
  building the parameters raises, the worker swallows the exception and nothing is
  written.
\<close>

definition write_basic :: 
  "(pystr \<Rightarrow> py_error + int) \<Rightarrow> (pystr \<Rightarrow> py_error + real) \<Rightarrow> (pystr \<Rightarrow> pystr)
     \<Rightarrow> pystr \<Rightarrow> pystr \<Rightarrow> pystr \<Rightarrow> basic \<Rightarrow> pystr \<Rightarrow> characters \<Rightarrow> characters" where
  "write_basic int_of_str float_of_str lower ocid name world b now tbl =
     (case update_characters_params int_of_str float_of_str lower name world b now of
        Inl e \<Rightarrow> tbl
      | Inr params \<Rightarrow> upsert_update_characters tbl ocid params)"

subsection \<open>Staleness\<close>

definition basic_updated_at :: "characters \<Rightarrow> pystr \<Rightarrow> pystr option" where
  "basic_updated_at db ocid = (case db ocid of None \<Rightarrow> None | Some row \<Rightarrow> updated_at row)"

text \<open>\<open>iso_dt.replace("Z", "+00:00")\<close>.\<close>

definition replace_Z :: "pystr \<Rightarrow> pystr" where
  "replace_Z s = concat (map (\<lambda>c. if c = 90 then ascii ''+00:00'' else [c]) s)"

text \<open>
  \<open>_days_since\<close>. \<open>datetime.fromisoformat\<close> is a parameter that returns the instant or
  raises; \<open>today\<close> is \<open>date.today()\<close>.
\<close>

definition days_since :: "(pystr \<Rightarrow> py_error + datetime) \<Rightarrow> int \<Rightarrow> pystr \<Rightarrow> int" where
  "days_since fromisoformat today iso_dt =
     (case fromisoformat (replace_Z iso_dt) of
        Inl e \<Rightarrow> 999999
      | Inr t \<Rightarrow> today - dt_day t)"

definition should_refresh_character ::
  "(pystr \<Rightarrow> py_error + datetime) \<Rightarrow> int \<Rightarrow> characters \<Rightarrow> pystr \<Rightarrow> int \<Rightarrow> bool" where
  "should_refresh_character fromisoformat today db ocid refresh_days =
     (case basic_updated_at db ocid of
        None \<Rightarrow> True
      | Some updated \<Rightarrow>
          if updated = [] then True
          else days_since fromisoformat today updated \<ge> refresh_days)"

subsection \<open>Example rows\<close>

definition ex_ocid :: pystr where
  "ex_ocid = ascii ''ocid-1''"

definition ex_stored :: character_row where
  "ex_stored =
     \<lparr>character_name = Some (ascii ''Aria''), world_name = Some (ascii ''W''),
      character_gender = Some (ascii ''F''), character_class = Some (ascii ''Hero''),
      character_class_level = Some 6, character_level = Some 200, character_exp = Some 5000,
      character_exp_rate = Some 12, character_guild_name = Some (ascii ''G''),
      character_image = Some (ascii ''img''), character_date_create = Some (ascii ''2024-01-01''),
      liberation_quest_clear = Some 1, access_flag = Some 1,
      updated_at = Some (ascii ''2025-01-01T08:00:00'')\<rparr>"

definition ex_characters :: characters where
  "ex_characters = [ex_ocid \<mapsto> ex_stored]"

definition ex_basic :: basic where
  "ex_basic =
     \<lparr>api_character_name = Some (ascii ''Aria''), api_world_name = Some (ascii ''W''),
      api_character_gender = None, api_character_class = None,
      api_character_class_level = None, api_character_level = Some 180,
      api_character_exp = None, api_character_exp_rate = None,
      api_character_guild_name = None, api_character_image = None,
      api_character_date_create = None, api_liberation_quest_clear = None,
      api_access_flag = None\<rparr>"

definition ex_fromisoformat :: "pystr \<Rightarrow> py_error + datetime" where
  "ex_fromisoformat s =
     (if s = ascii ''2025-01-01T08:00:00'' then
        Inr \<lparr>dt_day = 739252, dt_hour = 8, dt_minute = 0, dt_second = 0, dt_micro = 0\<rparr>
      else Inl ValueError)"

section \<open>API client\<close>

text \<open>
  What a raised exception is to the client: its class and its text. Every class but
  \<open>CancelledError\<close> derives from \<open>Exception\<close>, which is what \<open>except Exception\<close> catches.
\<close>

datatype exc_class =
  TimeoutError | ClientError | ContentTypeError | JSONDecodeError | UnicodeEncodeError | CancelledError

type_synonym raised = "exc_class \<times> pystr"

fun is_Exception :: "exc_class \<Rightarrow> bool" where
  "is_Exception CancelledError = False"
| "is_Exception _ = True"

subsection \<open>\<open>urllib.parse.quote\<close>\<close>

text \<open>
  \<open>str.encode('utf-8', 'strict')\<close> on one code point: one to four bytes; a surrogate
  (55296 to 57343) has no encoding and raises \<open>UnicodeEncodeError\<close>. Numbers from
  1114112 on are code points of no string; they are refused as well.
\<close>

definition utf8_encode_char :: "nat \<Rightarrow> nat list option" where
  "utf8_encode_char c =
     (if c < 128 then Some [c]
      else if c < 2048 then Some [192 + c div 64, 128 + c mod 64]
      else if 55296 \<le> c \<and> c \<le> 57343 then None
      else if c < 65536 then Some [224 + c div 4096, 128 + c div 64 mod 64, 128 + c mod 64]
      else if c < 1114112 then
        Some [240 + c div 262144, 128 + c div 4096 mod 64, 128 + c div 64 mod 64, 128 + c mod 64]
      else None)"

fun utf8_encode :: "pystr \<Rightarrow> nat list option" where
  "utf8_encode [] = Some []"
| "utf8_encode (c # s) =
     (case utf8_encode_char c of
        None \<Rightarrow> None
      | Some b \<Rightarrow> (case utf8_encode s of None \<Rightarrow> None | Some bs \<Rightarrow> Some (b @ bs)))"

text \<open>
  The bytes that \<open>quote\<close> leaves as they are: letters, digits, \<open>_.-~\<close> and the default
  \<open>safe='/'\<close>. Every other byte becomes \<open>%XX\<close> with upper-case hexadecimal digits.
\<close>

definition is_safe :: "nat \<Rightarrow> bool" where
  "is_safe b = ((65 \<le> b \<and> b \<le> 90) \<or> (97 \<le> b \<and> b \<le> 122) \<or> (48 \<le> b \<and> b \<le> 57)
      \<or> b = 95 \<or> b = 46 \<or> b = 45 \<or> b = 126 \<or> b = 47)"

definition upper_hex_digit :: "nat \<Rightarrow> nat" where
  "upper_hex_digit d = (if d < 10 then 48 + d else 55 + d)"

definition quote_byte :: "nat \<Rightarrow> pystr" where
  "quote_byte b = (if is_safe b then [b] else [37, upper_hex_digit (b div 16), upper_hex_digit (b mod 16)])"

text \<open>
  \<open>quote(string)\<close>: the empty string is returned as it is; otherwise the string is
  encoded, which may raise, and the bytes are quoted. The text of the exception is left
  out: no operation reads it.
\<close>

definition quote :: "pystr \<Rightarrow> raised + pystr" where
  "quote string =
     (if string = [] then Inr string
      else (case utf8_encode string of
              None \<Rightarrow> Inl (UnicodeEncodeError, [])
            | Some bs \<Rightarrow> Inr (concat (map quote_byte bs))))"

subsection \<open>Requests\<close>

text \<open>
  A response: its status, what \<open>await resp.text()\<close> gives and what \<open>await resp.json()\<close>
  gives (each may raise). The transport \<open>session.get\<close> is a parameter that, for a URL,
  raises or yields a response.
\<close>

datatype response = Response (resp_status: int) (resp_text: "raised + pystr") (resp_json: "raised + json")

type_synonym http = "pystr \<Rightarrow> raised + response"

text \<open>The diagnostic returned beside the data: status, body and URL, or exception text and URL.\<close>

datatype err_info = ErrStatus int pystr pystr | ErrException pystr pystr

text \<open>\<open>_get_json\<close>: the body of the \<open>try\<close>, then the \<open>except Exception\<close> clause.\<close>

definition get_json :: "http \<Rightarrow> pystr \<Rightarrow> raised + (json \<times> err_info option)" where
  "get_json session_get url =
     (let attempt =
        (case session_get url of
           Inl e \<Rightarrow> Inl e
         | Inr resp \<Rightarrow>
             if resp_status resp \<noteq> 200 then
               (case resp_text resp of
                  Inl e \<Rightarrow> Inl e
                | Inr t \<Rightarrow> Inr (JNull, Some (ErrStatus (resp_status resp) t url)))
             else
               (case resp_json resp of
                  Inl e \<Rightarrow> Inl e
                | Inr data \<Rightarrow> Inr (data, None)))
      in case attempt of
           Inl (c, msg) \<Rightarrow>
             if is_Exception c then Inr (JNull, Some (ErrException msg url)) else Inl (c, msg)
         | Inr r \<Rightarrow> Inr r)"

text \<open>\<open>data, err = await self._get_json(session, url); return data if data else None\<close>.\<close>

definition data_or_none :: "raised + (json \<times> err_info option) \<Rightarrow> raised + json" where
  "data_or_none r =
     (case r of Inl e \<Rightarrow> Inl e | Inr (data, err) \<Rightarrow> Inr (if truthy data then data else JNull))"

definition BASE_URL :: pystr where
  "BASE_URL = ascii ''https://open.api.nexon.com/maplestorytw/v1''"

text \<open>
  The URLs of the operations. Each is an f-string evaluated before \<open>_get_json\<close> is
  called and outside its \<open>try\<close>, so an exception of \<open>quote\<close> is an exception of the
  operation. \<open>url_param\<close> appends one quoted argument.
\<close>

definition url_param :: "raised + pystr \<Rightarrow> pystr \<Rightarrow> pystr \<Rightarrow> raised + pystr" where
  "url_param url key arg =
     (case url of
        Inl e \<Rightarrow> Inl e
      | Inr u \<Rightarrow> (case quote arg of Inl e \<Rightarrow> Inl e | Inr q \<Rightarrow> Inr (u @ key @ q)))"

definition url_ocid :: "pystr \<Rightarrow> raised + pystr" where
  "url_ocid name = url_param (Inr BASE_URL) (ascii ''/id?character_name='') name"

definition url_basic :: "pystr \<Rightarrow> raised + pystr" where
  "url_basic ocid = url_param (Inr BASE_URL) (ascii ''/character/basic?ocid='') ocid"

definition url_stat :: "pystr \<Rightarrow> pystr option \<Rightarrow> raised + pystr" where
  "url_stat ocid date_str =
     (case date_str of
        None \<Rightarrow> url_param (Inr BASE_URL) (ascii ''/character/stat?ocid='') ocid
      | Some d \<Rightarrow>
          if d \<noteq> [] then
            url_param (url_param (Inr BASE_URL) (ascii ''/character/stat?ocid='') ocid)
              (ascii ''&date='') d
          else url_param (Inr BASE_URL) (ascii ''/character/stat?ocid='') ocid)"

definition url_guild_id :: "pystr \<Rightarrow> pystr \<Rightarrow> raised + pystr" where
  "url_guild_id guild_name world =
     url_param (url_param (Inr BASE_URL) (ascii ''/guild/id?guild_name='') guild_name)
       (ascii ''&world_name='') world"

definition url_guild_basic :: "pystr \<Rightarrow> raised + pystr" where
  "url_guild_basic oguild_id = url_param (Inr BASE_URL) (ascii ''/guild/basic?oguild_id='') oguild_id"

definition url_item_equipment :: "pystr \<Rightarrow> pystr option \<Rightarrow> raised + pystr" where
  "url_item_equipment ocid date_str =
     (case date_str of
        None \<Rightarrow> url_param (Inr BASE_URL) (ascii ''/character/item-equipment?ocid='') ocid
      | Some d \<Rightarrow>
          if d \<noteq> [] then
            url_param (url_param (Inr BASE_URL) (ascii ''/character/item-equipment?ocid='') ocid)
              (ascii ''&date='') d
          else url_param (Inr BASE_URL) (ascii ''/character/item-equipment?ocid='') ocid)"

text \<open>An operation: build the URL, then \<open>_get_json\<close>, then \<open>return data if data else None\<close>.\<close>

definition fetch_url :: "http \<Rightarrow> raised + pystr \<Rightarrow> raised + json" where
  "fetch_url session_get url =
     (case url of Inl e \<Rightarrow> Inl e | Inr u \<Rightarrow> data_or_none (get_json session_get u))"

definition get_ocid :: "http \<Rightarrow> pystr \<Rightarrow> raised + json" where
  "get_ocid session_get name = fetch_url session_get (url_ocid name)"

definition get_basic :: "http \<Rightarrow> pystr \<Rightarrow> raised + json" where
  "get_basic session_get ocid = fetch_url session_get (url_basic ocid)"

definition get_stat :: "http \<Rightarrow> pystr \<Rightarrow> pystr option \<Rightarrow> raised + json" where
  "get_stat session_get ocid date_str = fetch_url session_get (url_stat ocid date_str)"

definition get_guild_id :: "http \<Rightarrow> pystr \<Rightarrow> pystr \<Rightarrow> raised + json" where
  "get_guild_id session_get guild_name world = fetch_url session_get (url_guild_id guild_name world)"

definition get_guild_basic :: "http \<Rightarrow> pystr \<Rightarrow> raised + json" where
  "get_guild_basic session_get oguild_id = fetch_url session_get (url_guild_basic oguild_id)"

definition get_item_equipment :: "http \<Rightarrow> pystr \<Rightarrow> pystr option \<Rightarrow> raised + json" where
  "get_item_equipment session_get ocid date_str =
     fetch_url session_get (url_item_equipment ocid date_str)"

text \<open>The operations of the client, as one type of requests.\<close>

datatype request =
    GetOcid pystr
  | GetBasic pystr
  | GetStat pystr "pystr option"
  | GetGuildId pystr pystr
  | GetGuildBasic pystr
  | GetItemEquipment pystr "pystr option"

fun call :: "http \<Rightarrow> request \<Rightarrow> raised + json" where
  "call session_get (GetOcid name) = get_ocid session_get name"
| "call session_get (GetBasic ocid) = get_basic session_get ocid"
| "call session_get (GetStat ocid d) = get_stat session_get ocid d"
| "call session_get (GetGuildId g w) = get_guild_id session_get g w"
| "call session_get (GetGuildBasic g) = get_guild_basic session_get g"
| "call session_get (GetItemEquipment ocid d) = get_item_equipment session_get ocid d"

fun request_url :: "request \<Rightarrow> raised + pystr" where
  "request_url (GetOcid name) = url_ocid name"
| "request_url (GetBasic ocid) = url_basic ocid"
| "request_url (GetStat ocid d) = url_stat ocid d"
| "request_url (GetGuildId g w) = url_guild_id g w"
| "request_url (GetGuildBasic g) = url_guild_basic g"
| "request_url (GetItemEquipment ocid d) = url_item_equipment ocid d"

subsection \<open>What the client is meant to do\<close>

text \<open>A result that does not raise past \<open>except Exception\<close>.\<close>

definition catchable :: "raised + 'a \<Rightarrow> bool" where
  "catchable r = (case r of Inl (c, msg) \<Rightarrow> is_Exception c | Inr v \<Rightarrow> True)"

text \<open>A string that has a UTF-8 encoding: no surrogate in it.\<close>

definition encodable :: "pystr \<Rightarrow> bool" where
  "encodable s = list_all (\<lambda>c. c < 55296 \<or> (57343 < c \<and> c < 1114112)) s"

text \<open>The texts that an operation puts into its URL.\<close>

fun request_args :: "request \<Rightarrow> pystr list" where
  "request_args (GetOcid name) = [name]"
| "request_args (GetBasic ocid) = [ocid]"
| "request_args (GetStat ocid d) = ocid # (case d of None \<Rightarrow> [] | Some t \<Rightarrow> [t])"
| "request_args (GetGuildId g w) = [g, w]"
| "request_args (GetGuildBasic g) = [g]"
| "request_args (GetItemEquipment ocid d) = ocid # (case d of None \<Rightarrow> [] | Some t \<Rightarrow> [t])"

text \<open>The values that Python takes for false.\<close>

definition falsy_values :: "json set" where
  "falsy_values = {JNull, JBool False, JInt 0, JStr [], JList [], JDict []}"

subsection \<open>Example transports\<close>

definition ex_http :: "raised + response \<Rightarrow> http" where
  "ex_http outcome url = outcome"

definition ex_empty_object :: "raised + response" where
  "ex_empty_object = Inr (Response 200 (Inr (ascii ''{}'')) (Inr (JDict [])))"

text \<open>A transport that answers only the request for the identity of \<open>Aria\<close>.\<close>

definition ex_server :: http where
  "ex_server url =
     (if url = ascii ''https://open.api.nexon.com/maplestorytw/v1/id?character_name=Aria'' then
        Inr (Response 200 (Inr []) (Inr (JDict [(ascii ''ocid'', JStr (ascii ''o1''))])))
      else Inr (Response 404 (Inr (ascii ''not found'')) (Inl (ContentTypeError, []))))"

section \<open>List records and their classification\<close>

subsection \<open>Decimal digits\<close>

text \<open>
  The code points that \<open>\d\<close> matches in a pattern on \<open>str\<close> and that \<open>int\<close> accepts: the
  decimal digits of Unicode (14.0), in blocks of consecutive code points, each block
  starting at a digit zero.
\<close>

definition decimal_blocks :: "(nat \<times> nat) list" where
  "decimal_blocks =
     [(48, 10), (1632, 10), (1776, 10), (1984, 10), (2406, 10), (2534, 10), (2662, 10),
      (2790, 10), (2918, 10), (3046, 10), (3174, 10), (3302, 10), (3430, 10), (3558, 10),
      (3664, 10), (3792, 10), (3872, 10), (4160, 10), (4240, 10), (6112, 10), (6160, 10),
      (6470, 10), (6608, 10), (6784, 10), (6800, 10), (6992, 10), (7088, 10), (7232, 10),
      (7248, 10), (42528, 10), (43216, 10), (43264, 10), (43472, 10), (43504, 10),
      (43600, 10), (44016, 10), (65296, 10), (66720, 10), (68912, 10), (69734, 10),
      (69872, 10), (69942, 10), (70096, 10), (70384, 10), (70736, 10), (70864, 10),
      (71248, 10), (71360, 10), (71472, 10), (71904, 10), (72016, 10), (72784, 10),
      (73040, 10), (73120, 10), (92768, 10), (92864, 10), (93008, 10), (120782, 50),
      (123200, 10), (123632, 10), (125264, 10), (130032, 10)]"

definition digit_value :: "nat \<Rightarrow> nat option" where
  "digit_value c =
     (case find (\<lambda>(start, n). start \<le> c \<and> c < start + n) decimal_blocks of
        None \<Rightarrow> None
      | Some (start, n) \<Rightarrow> Some ((c - start) mod 10))"

definition is_digit :: "nat \<Rightarrow> bool" where
  "is_digit c = (digit_value c \<noteq> None)"

text \<open>\<open>int(s)\<close> for a non-empty string of decimal digits.\<close>

definition int_of_digits :: "pystr \<Rightarrow> nat option" where
  "int_of_digits s =
     (if s \<noteq> [] \<and> list_all is_digit s
      then Some (foldl (\<lambda>a c. 10 * a + (case digit_value c of None \<Rightarrow> 0 | Some d \<Rightarrow> d)) 0 s)
      else None)"

subsection \<open>The list sync's test for a permanent block\<close>

text \<open>
  The pattern \<open>^\s*(\d{4})/(\d{1,2})/(\d{1,2})\s*$\<close>, matched from the left:
  \<open>re_digits n\<close> takes up to \<open>n\<close> digits, as many as there are; \<open>re_char\<close> takes one given
  character. The three groups are returned.
\<close>

definition re_digits :: "nat \<Rightarrow> pystr \<Rightarrow> pystr \<times> pystr" where
  "re_digits n s = (let ds = takeWhile is_digit (take n s) in (ds, drop (length ds) s))"

definition re_char :: "nat \<Rightarrow> pystr \<Rightarrow> pystr option" where
  "re_char c s = (case s of [] \<Rightarrow> None | x # r \<Rightarrow> if x = c then Some r else None)"

definition re_ymd :: "pystr \<Rightarrow> (pystr \<times> pystr \<times> pystr) option" where
  "re_ymd s =
     (case re_digits 4 (dropWhile isspace s) of (y, r1) \<Rightarrow>
        if length y \<noteq> 4 then None
        else case re_char 47 r1 of None \<Rightarrow> None | Some r2 \<Rightarrow>
          (case re_digits 2 r2 of (m, r3) \<Rightarrow>
             if m = [] then None
             else case re_char 47 r3 of None \<Rightarrow> None | Some r4 \<Rightarrow>
               (case re_digits 2 r4 of (d, r5) \<Rightarrow>
                  if d = [] then None
                  else if list_all isspace r5 then Some (y, m, d) else None)))"

text \<open>\<open>blacklist_fetcher._is_permanent_unblock_date\<close>.\<close>

definition is_permanent_unblock_date :: "pystr \<Rightarrow> bool" where
  "is_permanent_unblock_date unblocked_date_text =
     (let s = strip unblocked_date_text
      in if s = [] then False
         else (case re_ymd s of
                 None \<Rightarrow> False
               | Some (y, m, d) \<Rightarrow>
                   (case int_of_digits y of None \<Rightarrow> False | Some yv \<Rightarrow> yv \<ge> 2079)))"

text \<open>
  A text of the form year/month/day: four digits, a slash, one or two digits, a slash,
  one or two digits.
\<close>

definition ymd_text :: "pystr \<Rightarrow> pystr \<Rightarrow> pystr \<Rightarrow> pystr \<Rightarrow> bool" where
  "ymd_text s y m d =
     (s = y @ [47] @ m @ [47] @ d
      \<and> length y = 4 \<and> list_all is_digit y
      \<and> m \<noteq> [] \<and> length m \<le> 2 \<and> list_all is_digit m
      \<and> d \<noteq> [] \<and> length d \<le> 2 \<and> list_all is_digit d)"

subsection \<open>Calendar dates\<close>

text \<open>
  A Python \<open>date\<close> with its fields, its ordinal and its constructor, which raises
  \<open>ValueError\<close> outside the calendar.
\<close>

record pydate =
  d_year :: int
  d_month :: int
  d_day :: int

definition is_leap :: "int \<Rightarrow> bool" where
  "is_leap y = (y mod 4 = 0 \<and> (y mod 100 \<noteq> 0 \<or> y mod 400 = 0))"

definition days_before_year :: "int \<Rightarrow> int" where
  "days_before_year y = (y - 1) * 365 + (y - 1) div 4 - (y - 1) div 100 + (y - 1) div 400"

definition DAYS_IN_MONTH :: "int list" where
  "DAYS_IN_MONTH = [- 1, 31, 28, 31, 30, 31, 30, 31, 31, 30, 31, 30, 31]"

definition DAYS_BEFORE_MONTH :: "int list" where
  "DAYS_BEFORE_MONTH = [- 1, 0, 31, 59, 90, 120, 151, 181, 212, 243, 273, 304, 334]"

definition days_in_month :: "int \<Rightarrow> int \<Rightarrow> int" where
  "days_in_month y m = (if m = 2 \<and> is_leap y then 29 else DAYS_IN_MONTH ! nat m)"

definition days_before_month :: "int \<Rightarrow> int \<Rightarrow> int" where
  "days_before_month y m = DAYS_BEFORE_MONTH ! nat m + (if m > 2 \<and> is_leap y then 1 else 0)"

definition toordinal :: "pydate \<Rightarrow> int" where
  "toordinal dt =
     days_before_year (d_year dt) + days_before_month (d_year dt) (d_month dt) + d_day dt"

definition make_date :: "int \<Rightarrow> int \<Rightarrow> int \<Rightarrow> pydate option" where
  "make_date y m d =
     (if \<not> (1 \<le> y \<and> y \<le> 9999) then None
      else if \<not> (1 \<le> m \<and> m \<le> 12) then None
      else if \<not> (1 \<le> d \<and> d \<le> days_in_month y m) then None
      else Some \<lparr>d_year = y, d_month = m, d_day = d\<rparr>)"

subsection \<open>The dashboard's date parser and tests\<close>

text \<open>
  \<open>datetime.strptime(s, "%Y/%m/%d")\<close> matches the pattern
  \<open>(\d\d\d\d)/(1[0-2]|0[1-9]|[1-9])/(3[0-1]|[1-2]\d|0[1-9]|[1-9]| [1-9])\<close> from the left.
  Each part of the pattern lists the ways it can match a prefix, in the order the
  matcher tries them, with the rest of the text; the matches of the whole pattern are
  listed in that order, and the matcher returns the first.
\<close>

definition in_range :: "nat \<Rightarrow> nat \<Rightarrow> nat \<Rightarrow> bool" where
  "in_range lo hi c = (lo \<le> c \<and> c \<le> hi)"

definition year_alts :: "pystr \<Rightarrow> (pystr \<times> pystr) list" where
  "year_alts s =
     (if length s \<ge> 4 \<and> list_all is_digit (take 4 s) then [(take 4 s, drop 4 s)] else [])"

definition char_alts :: "nat \<Rightarrow> pystr \<Rightarrow> pystr list" where
  "char_alts c s = (case s of [] \<Rightarrow> [] | x # r \<Rightarrow> if x = c then [r] else [])"

definition month_alts :: "pystr \<Rightarrow> (pystr \<times> pystr) list" where
  "month_alts s =
     (case s of
        [] \<Rightarrow> []
      | [c1] \<Rightarrow> if in_range 49 57 c1 then [([c1], [])] else []
      | c1 # c2 # r \<Rightarrow>
          (if c1 = 49 \<and> in_range 48 50 c2 then [([c1, c2], r)] else [])
          @ (if c1 = 48 \<and> in_range 49 57 c2 then [([c1, c2], r)] else [])
          @ (if in_range 49 57 c1 then [([c1], c2 # r)] else []))"

definition day_alts :: "pystr \<Rightarrow> (pystr \<times> pystr) list" where
  "day_alts s =
     (case s of
        [] \<Rightarrow> []
      | [c1] \<Rightarrow> if in_range 49 57 c1 then [([c1], [])] else []
      | c1 # c2 # r \<Rightarrow>
          (if c1 = 51 \<and> in_range 48 49 c2 then [([c1, c2], r)] else [])
          @ (if in_range 49 50 c1 \<and> is_digit c2 then [([c1, c2], r)] else [])
          @ (if c1 = 48 \<and> in_range 49 57 c2 then [([c1, c2], r)] else [])
          @ (if in_range 49 57 c1 then [([c1], c2 # r)] else [])
          @ (if c1 = 32 \<and> in_range 49 57 c2 then [([c1, c2], r)] else []))"

definition strptime_matches :: "pystr \<Rightarrow> (pystr \<times> pystr \<times> pystr \<times> pystr) list" where
  "strptime_matches s =
     [(y, m, d, r5). (y, r1) \<leftarrow> year_alts s, r2 \<leftarrow> char_alts 47 r1, (m, r3) \<leftarrow> month_alts r2,
                     r4 \<leftarrow> char_alts 47 r3, (d, r5) \<leftarrow> day_alts r4]"

text \<open>
  \<open>strptime\<close> raises when nothing matches, when text remains after the match, and when
  the numbers are no date.
\<close>

definition strptime_ymd :: "pystr \<Rightarrow> pydate option" where
  "strptime_ymd s =
     (case strptime_matches s of
        [] \<Rightarrow> None
      | (y, m, d, rest) # _ \<Rightarrow>
          if rest \<noteq> [] then None
          else (case (int_of_digits y, int_of_digits m, int_of_digits (strip d)) of
                  (Some yv, Some mv, Some dv) \<Rightarrow> make_date (int yv) (int mv) (int dv)
                | _ \<Rightarrow> None))"

text \<open>
  \<open>app.parse_ymd\<close>; any exception gives \<open>None\<close>. \<open>date.fromisoformat\<close> is a parameter that
  returns the date or \<open>None\<close> when it raises.
\<close>

definition parse_ymd :: "(pystr \<Rightarrow> pydate option) \<Rightarrow> pystr \<Rightarrow> pydate option" where
  "parse_ymd fromisoformat s =
     (if s = [] then None
      else let s' = strip s
           in if 47 \<in> set s' then strptime_ymd s' else fromisoformat s')"

definition app_is_permanent_unblock_date :: "(pystr \<Rightarrow> pydate option) \<Rightarrow> pystr \<Rightarrow> bool" where
  "app_is_permanent_unblock_date fromisoformat unblocked =
     (case parse_ymd fromisoformat unblocked of None \<Rightarrow> False | Some d \<Rightarrow> d_year d \<ge> 2079)"

definition is_7day_lock :: "(pystr \<Rightarrow> pydate option) \<Rightarrow> pystr \<Rightarrow> pystr \<Rightarrow> bool" where
  "is_7day_lock fromisoformat blocked unblocked =
     (case parse_ymd fromisoformat blocked of
        None \<Rightarrow> False
      | Some bd \<Rightarrow>
          (case parse_ymd fromisoformat unblocked of
             None \<Rightarrow> False
           | Some ud \<Rightarrow>
               toordinal ud - toordinal bd \<le> 7 \<and> toordinal ud - toordinal bd \<ge> 1
               \<and> d_year ud < 2079))"

text \<open>
  \<open>_classify\<close> of the dashboard, on a record whose block-start and unblock texts are
  \<open>blocked\<close> and \<open>unblocked\<close>: permanent, 7-day lock, or other.
\<close>

datatype lock_type = Permanent | SevenDay | Other

definition classify :: "(pystr \<Rightarrow> pydate option) \<Rightarrow> pystr \<Rightarrow> pystr \<Rightarrow> lock_type" where
  "classify fromisoformat blocked unblocked =
     (if app_is_permanent_unblock_date fromisoformat unblocked then Permanent
      else if is_7day_lock fromisoformat blocked unblocked then SevenDay
      else Other)"


section \<open>Incremental list sync\<close>

subsection \<open>Names of a day's records\<close>

text \<open>
  \<open>(row.get(key) or "").strip()\<close>: a value that is neither falsy nor a string has no
  \<open>strip\<close>.
\<close>

definition str_field :: "json \<Rightarrow> py_error + pystr" where
  "str_field v =
     (case py_or v (JStr []) of
        JStr s \<Rightarrow> Inr (strip s)
      | _ \<Rightarrow> Inl AttributeError)"

text \<open>The names of the records, and the names of the permanently blocked ones.\<close>

fun extract_names :: "pydict list \<Rightarrow> py_error + pystr set" where
  "extract_names [] = Inr {}"
| "extract_names (row # list_data) =
     (case str_field (dget row (ascii ''characterName'')) of
        Inl e \<Rightarrow> Inl e
      | Inr nm \<Rightarrow>
          (case extract_names list_data of
             Inl e \<Rightarrow> Inl e
           | Inr names \<Rightarrow> Inr (if nm \<noteq> [] then insert nm names else names)))"

fun extract_permanent_names :: "pydict list \<Rightarrow> py_error + pystr set" where
  "extract_permanent_names [] = Inr {}"
| "extract_permanent_names (row # list_data) =
     (case str_field (dget row (ascii ''characterName'')) of
        Inl e \<Rightarrow> Inl e
      | Inr nm \<Rightarrow>
          (case str_field (dget row (ascii ''unBlockedDate'')) of
             Inl e \<Rightarrow> Inl e
           | Inr ub \<Rightarrow>
               (case extract_permanent_names list_data of
                  Inl e \<Rightarrow> Inl e
                | Inr names \<Rightarrow>
                    Inr (if nm \<noteq> [] \<and> is_permanent_unblock_date ub then insert nm names
                         else names))))"

subsection \<open>The persisted cursor\<close>

text \<open>
  A row of \<open>blacklist_sync_log\<close>, keyed by world. The cursor column holds the ISO text of a
  date; the model keeps the date (its day number). The time stamp column is left out.
\<close>

record sync_log_row =
  log_server_name :: pystr
  log_server_id :: pystr
  last_success_date :: "int option"

text \<open>
  The effects of a run, in the order they happen: the session is opened, a day's listing
  is requested, a day's names are applied to the entity store, the cursor is written.
  The state of a run is the cursor table, the entity store and the effects so far.
\<close>

datatype effect = EInit | EFetch int | EApply int | ECursor int

record 'db sync_state =
  sync_log :: "pystr \<rightharpoonup> sync_log_row"
  entity_store :: 'db
  effects :: "effect list"

definition log_effect :: "effect \<Rightarrow> 'db sync_state \<Rightarrow> 'db sync_state" where
  "log_effect e st = st\<lparr>effects := effects st @ [e]\<rparr>"

definition get_blacklist_last_sync_date :: "'db sync_state \<Rightarrow> pystr \<Rightarrow> int option" where
  "get_blacklist_last_sync_date st world =
     (case sync_log st world of None \<Rightarrow> None | Some row \<Rightarrow> last_success_date row)"

definition set_blacklist_last_sync_date ::
  "pystr \<Rightarrow> pystr \<Rightarrow> pystr \<Rightarrow> int \<Rightarrow> 'db sync_state \<Rightarrow> 'db sync_state" where
  "set_blacklist_last_sync_date world server_name server_id last_date st =
     (log_effect (ECursor last_date) st)
       \<lparr>sync_log := (sync_log st)(world \<mapsto>
          \<lparr>log_server_name = server_name, log_server_id = server_id,
           last_success_date = Some last_date\<rparr>)\<rparr>"

subsection \<open>The day loop\<close>

text \<open>
  The counters of a run. The site client's \<open>fetch_all_for_date\<close> is the parameter \<open>fetch\<close>
  (it returns the day's records or raises), \<open>purge_or_skip_blacklisted\<close> on the entity
  store is the parameter \<open>apply\<close> (it returns the changed store with the number of
  matches and a sample of matched names, or raises). An exception of either ends the run,
  the state being what was persisted until then.
\<close>

record sync_acc =
  done_days :: nat
  scanned_total_names :: nat
  scanned_effective_names :: nat
  applied_matched_total :: nat
  matched_names_union :: "pystr list"

type_synonym 'db apply_fn = "pystr set \<Rightarrow> 'db \<Rightarrow> py_error + ('db \<times> nat \<times> pystr list)"

text \<open>The body of the loop for one day.\<close>

definition day_step ::
  "(int \<Rightarrow> py_error + pydict list) \<Rightarrow> 'db apply_fn \<Rightarrow> pystr \<Rightarrow> pystr \<Rightarrow> pystr \<Rightarrow> bool \<Rightarrow> int
     \<Rightarrow> int \<Rightarrow> sync_acc \<Rightarrow> 'db sync_state \<Rightarrow> (py_error + sync_acc) \<times> 'db sync_state" where
  "day_step fetch apply world server_name server_id permanent_only return_names_limit
       cur_day acc st =
     (let acc1 = acc\<lparr>done_days := done_days acc + 1\<rparr>;
          st1 = log_effect (EFetch cur_day) st
      in case fetch cur_day of
           Inl e \<Rightarrow> (Inl e, st1)
         | Inr rows \<Rightarrow>
        (case extract_names rows of
           Inl e \<Rightarrow> (Inl e, st1)
         | Inr all_names \<Rightarrow>
        (case (if permanent_only then extract_permanent_names rows else Inr all_names) of
           Inl e \<Rightarrow> (Inl e, st1)
         | Inr names \<Rightarrow>
        (let acc2 = acc1\<lparr>scanned_total_names := scanned_total_names acc1 + card all_names,
                          scanned_effective_names := scanned_effective_names acc1 + card names\<rparr>
         in if names \<noteq> {} then
              (let st2 = log_effect (EApply cur_day) st1
               in case apply names (entity_store st2) of
                    Inl e \<Rightarrow> (Inl e, st2)
                  | Inr (db', matched, sample) \<Rightarrow>
                      (let acc3 = acc2\<lparr>applied_matched_total := applied_matched_total acc2 + matched\<rparr>;
                           acc4 =
                             (if sample \<noteq> [] \<and> int (length (matched_names_union acc3)) < return_names_limit
                              then acc3\<lparr>matched_names_union := matched_names_union acc3
                                     @ take (nat (return_names_limit - int (length (matched_names_union acc3)))) sample\<rparr>
                              else acc3)
                       in (Inr acc4,
                           set_blacklist_last_sync_date world server_name server_id cur_day
                             (st2\<lparr>entity_store := db'\<rparr>))))
            else (Inr acc2, set_blacklist_last_sync_date world server_name server_id cur_day st1)))))"

function sync_days ::
  "(int \<Rightarrow> py_error + pydict list) \<Rightarrow> 'db apply_fn \<Rightarrow> pystr \<Rightarrow> pystr \<Rightarrow> pystr \<Rightarrow> bool \<Rightarrow> int
     \<Rightarrow> int \<Rightarrow> int \<Rightarrow> sync_acc \<Rightarrow> 'db sync_state \<Rightarrow> (py_error + sync_acc) \<times> 'db sync_state" where
  "sync_days fetch apply world server_name server_id permanent_only return_names_limit
       latest cur_day acc st =
     (if cur_day \<le> latest then
        (case day_step fetch apply world server_name server_id permanent_only
                return_names_limit cur_day acc st of
           (Inl e, st') \<Rightarrow> (Inl e, st')
         | (Inr acc', st') \<Rightarrow>
             sync_days fetch apply world server_name server_id permanent_only
               return_names_limit latest (cur_day + 1) acc' st')
      else (Inr acc, st))"
  by pat_completeness auto
termination
  by (relation "measure (\<lambda>(fetch, apply, world, server_name, server_id, permanent_only,
        return_names_limit, latest, cur_day, acc, st). nat (latest + 1 - cur_day))") auto

declare sync_days.simps [simp del]

subsection \<open>A run\<close>

text \<open>
  The result of a run: nothing to do, with the reason, or the report of the days
  processed. \<open>init\<close> is what opening the session gives: the token and the server
  identifier, or an exception.
\<close>

record ran_report =
  r_server_id :: pystr
  r_start :: int
  r_end :: int
  r_total_days :: int
  r_scanned_total_names :: nat
  r_scanned_effective_names :: nat
  r_applied_matched_total :: nat
  r_matched_names_sample :: "pystr list"

datatype sync_result = NotRan pystr "int option" "int option" | Ran ran_report

definition sync_blacklist_incremental ::
  "py_error + (pystr \<times> pystr) \<Rightarrow> (int \<Rightarrow> py_error + pydict list) \<Rightarrow> 'db apply_fn \<Rightarrow> datetime
     \<Rightarrow> pystr \<Rightarrow> pystr \<Rightarrow> int \<Rightarrow> bool \<Rightarrow> int \<Rightarrow> 'db sync_state
     \<Rightarrow> (py_error + sync_result) \<times> 'db sync_state" where
  "sync_blacklist_incremental init fetch apply now world server_name first_start_date
       permanent_only return_names_limit st =
     (let latest = latest_available_block_date now
      in if latest < first_start_date then
           (Inr (NotRan (ascii ''latest < first_start_date'') None None), st)
         else
           (let last = get_blacklist_last_sync_date st world;
                start = (case last of Some l \<Rightarrow> l + 1 | None \<Rightarrow> first_start_date)
            in if start > latest then
                 (Inr (NotRan (ascii ''up-to-date'') (Some start) (Some latest)), st)
               else
                 (let st0 = log_effect EInit st
                  in case init of
                       Inl e \<Rightarrow> (Inl e, st0)
                     | Inr (csrf, server_id) \<Rightarrow>
                         (let total_days = latest - start + 1;
                              acc0 = \<lparr>done_days = 0, scanned_total_names = 0,
                                      scanned_effective_names = 0, applied_matched_total = 0,
                                      matched_names_union = []\<rparr>
                          in case sync_days fetch apply world server_name server_id
                                  permanent_only return_names_limit latest start acc0 st0 of
                               (Inl e, st') \<Rightarrow> (Inl e, st')
                             | (Inr acc, st') \<Rightarrow>
                                 (Inr (Ran \<lparr>r_server_id = server_id, r_start = start,
                                     r_end = latest, r_total_days = total_days,
                                     r_scanned_total_names = scanned_total_names acc,
                                     r_scanned_effective_names = scanned_effective_names acc,
                                     r_applied_matched_total = applied_matched_total acc,
                                     r_matched_names_sample =
                                       sorted_list_of_set (set (matched_names_union acc))\<rparr>),
                                  st')))))"

subsection \<open>What the cursor discipline is meant to be\<close>

text \<open>
  The names to apply for a day, when the day's listing can be fetched and read, and the
  effects of a fully applied day: fetch, apply when there is a name, cursor.
\<close>

definition day_names :: "(int \<Rightarrow> py_error + pydict list) \<Rightarrow> bool \<Rightarrow> int \<Rightarrow> pystr set option" where
  "day_names fetch permanent_only d =
     (case fetch d of
        Inl e \<Rightarrow> None
      | Inr rows \<Rightarrow>
          (case extract_names rows of
             Inl e \<Rightarrow> None
           | Inr all_names \<Rightarrow>
               if permanent_only then
                 (case extract_permanent_names rows of Inl e \<Rightarrow> None | Inr names \<Rightarrow> Some names)
               else Some all_names))"

definition day_effects :: "(int \<Rightarrow> py_error + pydict list) \<Rightarrow> bool \<Rightarrow> int \<Rightarrow> effect list" where
  "day_effects fetch permanent_only d =
     (case day_names fetch permanent_only d of
        None \<Rightarrow> []
      | Some names \<Rightarrow> [EFetch d] @ (if names \<noteq> {} then [EApply d] else []) @ [ECursor d])"

text \<open>The cursor values written, and the days requested, in order.\<close>

fun cursor_writes :: "effect list \<Rightarrow> int list" where
  "cursor_writes [] = []"
| "cursor_writes (ECursor d # es) = d # cursor_writes es"
| "cursor_writes (e # es) = cursor_writes es"

fun fetched_days :: "effect list \<Rightarrow> int list" where
  "fetched_days [] = []"
| "fetched_days (EFetch d # es) = d # fetched_days es"
| "fetched_days (e # es) = fetched_days es"

text \<open>The effects of a day that failed: it was fetched, perhaps the apply was begun.\<close>

definition partial_day :: "int \<Rightarrow> effect list \<Rightarrow> bool" where
  "partial_day d p = (p = [EFetch d] \<or> p = [EFetch d, EApply d])"

text \<open>
  What a fully applied day does to the entity store: nothing when the day has no name,
  else what \<open>apply\<close> returns. A day whose listing cannot be fetched or read, or whose
  \<open>apply\<close> raises, is not fully applied. \<open>apply_days\<close> applies days one after the other.
\<close>

definition apply_day ::
  "(int \<Rightarrow> py_error + pydict list) \<Rightarrow> 'db apply_fn \<Rightarrow> bool \<Rightarrow> int \<Rightarrow> 'db \<Rightarrow> 'db option" where
  "apply_day fetch apply permanent_only d db =
     (case day_names fetch permanent_only d of
        None \<Rightarrow> None
      | Some names \<Rightarrow>
          if names = {} then Some db
          else (case apply names db of Inl e \<Rightarrow> None | Inr (db', matched, sample) \<Rightarrow> Some db'))"

fun apply_days ::
  "(int \<Rightarrow> py_error + pydict list) \<Rightarrow> 'db apply_fn \<Rightarrow> bool \<Rightarrow> int list \<Rightarrow> 'db \<Rightarrow> 'db option" where
  "apply_days fetch apply permanent_only [] db = Some db"
| "apply_days fetch apply permanent_only (d # ds) db =
     (case apply_day fetch apply permanent_only d db of
        None \<Rightarrow> None
      | Some db' \<Rightarrow> apply_days fetch apply permanent_only ds db')"

subsection \<open>Example run\<close>

definition ex_world :: pystr where
  "ex_world = ascii ''W''"

definition ex_row :: pydict where
  "ex_row = [(ascii ''characterName'', JStr (ascii ''Bad'')),
             (ascii ''blockDate'', JStr (ascii ''2025/12/05'')),
             (ascii ''unBlockedDate'', JStr (ascii ''2079/01/01''))]"

definition ex_fetch :: "int \<Rightarrow> py_error + pydict list" where
  "ex_fetch d = (if d = 739590 then Inr [ex_row] else Inr [])"

definition ex_apply :: "nat apply_fn" where
  "ex_apply names n = Inr (n + 1, 0, [])"

definition ex_init :: "py_error + (pystr \<times> pystr)" where
  "ex_init = Inr (ascii ''token'', ascii ''7'')"

definition ex_now :: datetime where
  "ex_now = \<lparr>dt_day = 739591, dt_hour = 7, dt_minute = 0, dt_second = 0, dt_micro = 0\<rparr>"

definition ex_sync_state :: "int \<Rightarrow> nat sync_state" where
  "ex_sync_state cursor =
     \<lparr>sync_log = [ex_world \<mapsto> \<lparr>log_server_name = ascii ''S'', log_server_id = ascii ''7'',
                                 last_success_date = Some cursor\<rparr>],
      entity_store = 0, effects = []\<rparr>"

text \<open>
  A second entity store for the example: the list of names of \<open>character_list\<close>. Applying
  removes the listed names and reports the names removed; \<open>ex_purge_fail\<close> is a store that
  cannot be written.
\<close>

definition ex_purge :: "pystr list apply_fn" where
  "ex_purge names db =
     Inr (filter (\<lambda>n. n \<notin> names) db, length (filter (\<lambda>n. n \<in> names) db),
          filter (\<lambda>n. n \<in> names) db)"

definition ex_purge_fail :: "pystr list apply_fn" where
  "ex_purge_fail names db = Inl RuntimeError"

definition ex_list_state :: "int \<Rightarrow> pystr list sync_state" where
  "ex_list_state cursor =
     \<lparr>sync_log = [ex_world \<mapsto> \<lparr>log_server_name = ascii ''S'', log_server_id = ascii ''7'',
                                 last_success_date = Some cursor\<rparr>],
      entity_store = [ascii ''Bad'', ascii ''Good''], effects = []\<rparr>"

section \<open>Properties\<close>

subsection \<open>Availability cutover\<close>

lemma dt_less_cutoff: "dt_less now (dt_combine (dt_day now) 6 0 0) \<longleftrightarrow> dt_hour now < 6"
  by (auto simp: dt_less_def dt_key_def dt_combine_def less_prod_def)

text \<open>
  C8. At every wall-clock instant the latest available listing day is today minus two
  days when the local hour is before 06:00, and today minus one day from 06:00:00 on;
  both copies of the rule (the sync service's and the dashboard's) compute this.
\<close>

theorem latest_available_cutover:
  "latest_available_block_date now = (if dt_hour now < 6 then dt_day now - 2 else dt_day now - 1)
   \<and> latest_available_blacklist_date now = latest_available_block_date now"
  by (simp add: latest_available_block_date_def latest_available_blacklist_date_def
      dt_less_cutoff)

subsection \<open>Evaluation of the Python primitives on concrete values\<close>

lemmas py_eval = ascii_def dget_def py_or_def strip_def isspace_def str_int_def
  hex_digit_def escape_char_def dumps_str_def drop_rate_marker_def count_drop_rate_mentions_def
  k_item_equipment_def k_item_equipment_slot_def k_item_equipment_part_def k_preset_no_def
  preset_keys_def slot_key_def merge_items_def slot_of_def distinct_slots_def Let_def

subsection \<open>Merging a candidate with the base\<close>

lemma put_items_Cons:
  "put_items R (x # xs) m =
     put_items R xs (case slot_of R x of None \<Rightarrow> m | Some k \<Rightarrow> AList.update k x m)"
  by (cases x) (simp_all add: slot_of_def Let_def)

lemma slot_table_Nil: "slot_table R [] k = None"
  by (simp add: slot_table_def)

lemma slot_table_Cons:
  "slot_table R (x # xs) k =
     (case slot_table R xs k of
        Some it \<Rightarrow> Some it
      | None \<Rightarrow> if slot_of R x = Some k then Some x else None)"
  by (simp add: slot_table_def split: list.splits)

lemma slot_table_Some:
  assumes "slot_table R xs k = Some it"
  shows "slot_of R it = Some k" and "it \<in> set xs"
proof -
  let ?F = "filter (\<lambda>it. slot_of R it = Some k) xs"
  from assms have ne: "?F \<noteq> []" and it: "it = last ?F"
    by (auto simp: slot_table_def split: list.splits)
  then have "it \<in> set ?F"
    using last_in_set by blast
  then show "slot_of R it = Some k" and "it \<in> set xs"
    by simp_all
qed

lemma map_of_put_items:
  "map_of (put_items R xs m) k =
     (case slot_table R xs k of None \<Rightarrow> map_of m k | Some it \<Rightarrow> Some it)"
proof (induction xs arbitrary: m)
  case Nil
  show ?case by (simp add: slot_table_Nil)
next
  case (Cons x xs)
  show ?case
    by (simp add: put_items_Cons Cons.IH slot_table_Cons update_conv'
        split: option.splits)
qed

lemma distinct_put_items:
  "distinct (map fst m) \<Longrightarrow> distinct (map fst (put_items R xs m))"
proof (induction xs arbitrary: m)
  case Nil
  then show ?case by simp
next
  case (Cons x xs)
  then show ?case
    by (simp add: put_items_Cons distinct_update split: option.splits)
qed

lemma lookup_all_total:
  "set ks \<subseteq> dom (map_of m) \<Longrightarrow> lookup_all m ks = Inr (map (\<lambda>k. the (map_of m k)) ks)"
  by (induction ks) auto

lemma map_of_merged:
  "map_of (put_items R preset (put_items R base [])) = merged_table R base preset"
  by (rule ext) (simp add: map_of_put_items merged_table_def map_add_def split: option.splits)

lemma merge_items_eq:
  "merge_items R base preset =
     Inr (map (\<lambda>k. the (merged_table R base preset k))
            (sorted_list_of_set (dom (merged_table R base preset))))"
proof -
  let ?m = "put_items R preset (put_items R base [])"
  have d: "distinct (map fst ?m)"
    by (simp add: distinct_put_items)
  have "sort (map fst ?m) = sorted_list_of_set (set (map fst ?m))"
    unfolding sorted_list_of_set_sort_remdups distinct_remdups_id [OF d] ..
  also have "set (map fst ?m) = dom (map_of ?m)"
    by (simp add: dom_map_of_conv_image_fst)
  finally have s: "sort (map fst ?m) = sorted_list_of_set (dom (map_of ?m))" .
  have "finite (dom (map_of ?m))"
    by (rule finite_dom_map_of)
  then have "set (sorted_list_of_set (dom (map_of ?m))) \<subseteq> dom (map_of ?m)"
    by simp
  then show ?thesis
    unfolding merge_items_def Let_def s
    by (simp add: lookup_all_total map_of_merged)
qed

lemma filter_slot_le_one:
  "distinct (List.map_filter f xs) \<Longrightarrow> length (filter (\<lambda>x. f x = Some k) xs) \<le> 1"
proof (induction xs)
  case Nil
  then show ?case by simp
next
  case (Cons x xs)
  show ?case
  proof (cases "f x = Some k")
    case True
    with Cons.prems have "k \<notin> set (List.map_filter f xs)"
      by (simp add: map_filter_simps)
    then have "filter (\<lambda>x. f x = Some k) xs = []"
      by (force simp: filter_empty_conv List.map_filter_def image_iff)
    with True show ?thesis by simp
  next
    case False
    with Cons show ?thesis
      by (cases "f x") (simp_all add: map_filter_simps)
  qed
qed

lemma mset_eq_short: "length ys \<le> 1 \<Longrightarrow> mset xs = mset ys \<Longrightarrow> xs = ys"
  by (cases ys; cases xs) auto

lemma slot_table_perm:
  assumes "mset xs' = mset xs" and "distinct_slots R xs"
  shows "slot_table R xs' = slot_table R xs"
proof
  fix k
  let ?P = "\<lambda>it. slot_of R it = Some k"
  have m: "mset (filter ?P xs') = mset (filter ?P xs)"
    using assms(1) by (simp add: mset_filter)
  have "length (filter ?P xs) \<le> 1"
    using assms(2) unfolding distinct_slots_def by (rule filter_slot_le_one)
  then have "filter ?P xs' = filter ?P xs"
    using m by (rule mset_eq_short)
  then show "slot_table R xs' k = slot_table R xs k"
    by (simp add: slot_table_def)
qed

lemma merged_table_slots:
  assumes "merged_table R base preset k = Some it"
  shows "slot_of R it = Some k"
  using assms slot_table_Some(1) [of R _ k it]
  by (auto simp: merged_table_def)

text \<open>
  C5. Merging a base list with a candidate list never fails and returns exactly the
  slot-keyed union of the two lists: the returned items define the slots \<open>ks\<close>, listed
  in strictly ascending order of slot key, and read as a table they are the base's table
  overridden by the candidate's (the candidate's item wherever both define a slot, the
  base's item for a slot only the base defines). Consequently, when no slot is defined
  twice within a list, every reordering of either list merges to the same result.
\<close>

theorem merge_items_slot_union:
  "\<exists>ks out. merge_items R base preset = Inr out
      \<and> map (slot_of R) out = map Some ks
      \<and> sorted ks \<and> distinct ks
      \<and> map_of (zip ks out) = slot_table R base ++ slot_table R preset
      \<and> (\<forall>base' preset'.
            mset base' = mset base \<and> mset preset' = mset preset
            \<and> distinct_slots R base \<and> distinct_slots R preset
            \<longrightarrow> merge_items R base' preset' = Inr out)"
proof -
  let ?M = "merged_table R base preset"
  let ?ks = "sorted_list_of_set (dom ?M)"
  let ?out = "map (\<lambda>k. the (?M k)) ?ks"
  have fin: "finite (dom ?M)"
    unfolding map_of_merged [symmetric] by (rule finite_dom_map_of)
  have 1: "merge_items R base preset = Inr ?out"
    by (rule merge_items_eq)
  have 2: "map (slot_of R) ?out = map Some ?ks"
    using fin by (auto dest: merged_table_slots)
  have 3: "sorted ?ks" "distinct ?ks"
    by simp_all
  have 4: "map_of (zip ?ks ?out) = slot_table R base ++ slot_table R preset"
  proof
    fix k
    have "map_of (zip ?ks ?out) k = ?M k"
      using fin by (cases "?M k") (auto simp: map_of_zip_map)
    then show "map_of (zip ?ks ?out) k = (slot_table R base ++ slot_table R preset) k"
      by (simp add: merged_table_def)
  qed
  have 5: "merge_items R base' preset' = Inr ?out"
    if "mset base' = mset base" "mset preset' = mset preset"
      "distinct_slots R base" "distinct_slots R preset" for base' preset'
  proof -
    have "slot_table R base' = slot_table R base"
      using that(1,3) by (rule slot_table_perm)
    moreover have "slot_table R preset' = slot_table R preset"
      using that(2,4) by (rule slot_table_perm)
    ultimately have "merged_table R base' preset' = ?M"
      by (simp only: merged_table_def)
    then show ?thesis
      by (simp add: merge_items_eq)
  qed
  then have 6: "\<forall>base' preset'.
      mset base' = mset base \<and> mset preset' = mset preset
      \<and> distinct_slots R base \<and> distinct_slots R preset
      \<longrightarrow> merge_items R base' preset' = Inr ?out"
    by blast
  show ?thesis
    by (rule exI [of _ ?ks], rule exI [of _ ?out]) (intro conjI 1 2 3 4 6)
qed

theorem merge_items_slot_union_witness:
  "distinct_slots no_repr ex_base \<and> distinct_slots no_repr ex_preset
   \<and> merge_items no_repr ex_base ex_preset
       = Inr [ex_item ''belt'' (ascii ''p2''), ex_item ''cape'' (ascii ''b2''),
              ex_item ''ring'' (ascii ''p1'')]
   \<and> merge_items no_repr (rev ex_base) (rev ex_preset) = merge_items no_repr ex_base ex_preset"
proof -
  have d: "distinct_slots no_repr ex_base" "distinct_slots no_repr ex_preset"
    by (simp_all add: py_eval ex_base_def ex_preset_def ex_item_def)
  have m: "merge_items no_repr ex_base ex_preset
       = Inr [ex_item ''belt'' (ascii ''p2''), ex_item ''cape'' (ascii ''b2''),
              ex_item ''ring'' (ascii ''p1'')]"
    by (simp add: py_eval ex_base_def ex_preset_def ex_item_def)
  obtain ks out where o: "merge_items no_repr ex_base ex_preset = Inr out"
    and p: "\<forall>base' preset'.
            mset base' = mset ex_base \<and> mset preset' = mset ex_preset
            \<and> distinct_slots no_repr ex_base \<and> distinct_slots no_repr ex_preset
            \<longrightarrow> merge_items no_repr base' preset' = Inr out"
    using merge_items_slot_union [of no_repr ex_base ex_preset] by blast
  have "merge_items no_repr (rev ex_base) (rev ex_preset) = Inr out"
    using p d by simp
  with o d m show ?thesis
    by simp
qed

subsection \<open>Selecting the cheapest candidate\<close>

lemma merge_items_Inr: "merge_items R base preset = Inr (case merge_items R base preset of Inr out \<Rightarrow> out | Inl e \<Rightarrow> [])"
  by (simp add: merge_items_eq)

text \<open>
  The marker token does not overlap itself, so the count that \<open>str.count\<close> gives for it,
  scanning without overlap, is the number of its occurrences.
\<close>

lemma occurrences_Nil: "occurrences sub [] = 0"
  by (simp add: occurrences_def)

lemma occurrences_Cons:
  "occurrences sub (c # s) =
     (if take (length sub) (c # s) = sub then 1 else 0) + occurrences sub s"
proof -
  have "[0..<length (c # s)] = 0 # map Suc [0..<length s]"
    by (simp add: upt_conv_Cons map_Suc_upt del: upt_Suc)
  then show ?thesis
    by (simp add: occurrences_def filter_map o_def del: upt_Suc)
qed

lemma occurrences_short: "length s < length sub \<Longrightarrow> occurrences sub s = 0"
proof -
  assume a: "length s < length sub"
  have "take (length sub) (drop i s) \<noteq> sub" for i
  proof
    assume "take (length sub) (drop i s) = sub"
    then have "length (take (length sub) (drop i s)) = length sub"
      by simp
    with a show False
      by simp
  qed
  then show ?thesis
    by (simp add: occurrences_def)
qed

lemma marker_no_overlap:
  assumes "take (length drop_rate_marker) s = drop_rate_marker"
  shows "occurrences drop_rate_marker s
    = 1 + occurrences drop_rate_marker (drop (length drop_rate_marker) s)"
proof -
  from assms obtain r where s: "s = [36947, 20855, 25481, 33853, 29575] @ r"
    by (metis append_take_drop_id drop_rate_marker_def)
  show ?thesis
    by (simp add: s occurrences_Cons drop_rate_marker_def)
qed

lemma py_count_marker_aux:
  "sub = drop_rate_marker \<Longrightarrow> py_count s sub = occurrences sub s"
proof (induction s sub rule: py_count.induct)
  case (1 s sub)
  note m = \<open>sub = drop_rate_marker\<close>
  have ne: "sub \<noteq> []"
    by (simp add: m drop_rate_marker_def)
  show ?case
  proof (cases "length s < length sub")
    case True
    then have "py_count s sub = 0"
      using ne by (subst py_count.simps) simp
    with True show ?thesis
      by (simp add: occurrences_short)
  next
    case False
    show ?thesis
    proof (cases "take (length sub) s = sub")
      case True
      have "py_count s sub = 1 + py_count (drop (length sub) s) sub"
        using False ne True by (subst py_count.simps) simp
      also have "py_count (drop (length sub) s) sub = occurrences sub (drop (length sub) s)"
        using False ne True m by (intro "1.IH"(1)) simp_all
      finally have "py_count s sub = 1 + occurrences sub (drop (length sub) s)" .
      also have "\<dots> = occurrences sub s"
        using True marker_no_overlap [of s] by (simp add: m)
      finally show ?thesis .
    next
      case no: False
      from False ne obtain c r where s: "s = c # r"
        by (cases s) auto
      have "py_count s sub = py_count (tl s) sub"
        using False ne no by (subst py_count.simps) simp
      also have "\<dots> = occurrences sub (tl s)"
        using False ne no m by (intro "1.IH"(2)) simp_all
      finally show ?thesis
        using no by (simp add: s occurrences_Cons)
    qed
  qed
qed

lemma py_count_marker: "py_count s drop_rate_marker = occurrences drop_rate_marker s"
  by (rule py_count_marker_aux) simp

lemma count_drop_rate_mentions_occurrences:
  "count_drop_rate_mentions raw = occurrences drop_rate_marker raw"
  by (simp add: count_drop_rate_mentions_def py_count_marker occurrences_Nil)

lemma build_candidates_eq:
  "build_candidates R equip (base_items_of equip) keys =
     Inr (map (candidate_of R equip) (filter (\<lambda>p. preset_items_of equip (snd p) \<noteq> []) keys))"
proof (induction keys)
  case Nil
  show ?case by simp
next
  case (Cons p keys)
  obtain no key where p: "p = (no, key)"
    by (cases p)
  show ?case
  proof (cases "preset_items_of equip key")
    case Nil
    then have "build_candidates R equip (base_items_of equip) (p # keys)
        = build_candidates R equip (base_items_of equip) keys"
      by (auto simp: p preset_items_of_def split: json.splits list.splits)
    with Nil show ?thesis
      by (simp add: Cons.IH p)
  next
    case (Cons x xs)
    then have g: "dget equip key = JList (x # xs)"
      by (auto simp: preset_items_of_def split: json.splits)
    have m: "merge_items R (base_items_of equip) (x # xs) = Inr (candidate_items R equip key)"
      using merge_items_Inr [of R "base_items_of equip" "x # xs"]
      by (simp add: candidate_items_def Cons)
    show ?thesis
      by (simp add: p g m Cons.IH Cons candidate_of_def candidate_cost_def Let_def
          count_drop_rate_mentions_occurrences)
  qed
qed

lemma sort_key_head:
  assumes "sort_key f xs = y # ys"
  shows "y \<in> set xs" and "\<forall>x\<in>set xs. f y \<le> f x"
proof -
  have s: "set (sort_key f xs) = set xs"
    by simp
  with assms show "y \<in> set xs"
    by (metis list.set_intros(1))
  have "sorted (map f (sort_key f xs))"
    by (rule sorted_sort_key)
  with assms have "\<forall>x\<in>set ys. f y \<le> f x"
    by simp
  with s assms show "\<forall>x\<in>set xs. f y \<le> f x"
    by (metis order_refl set_ConsD)
qed

lemma sort_key_preferred:
  assumes "candidate_sort_key (candidate_of R equip p) \<le> candidate_sort_key (candidate_of R equip q)"
  shows "preferred (candidate_cost R equip (snd p), fst p) (candidate_cost R equip (snd q), fst q)"
  using assms
  by (auto simp: candidate_sort_key_def candidate_of_def preferred_def less_eq_prod_def
      split: if_splits)

lemma trimmed_map:
  "map_of (AList.update k_item_equipment v
             (AList.update k_preset_no w
                (fold (\<lambda>(no, key) d. AList.delete key d) preset_keys equip)))
   = ((map_of equip) |` (- snd ` set preset_keys))(k_preset_no \<mapsto> w, k_item_equipment \<mapsto> v)"
  by (rule ext) (simp add: preset_keys_def update_conv' delete_conv' restrict_map_def)

text \<open>
  C1. When no preset of the record holds a non-empty list, the selector returns the
  record unchanged. Otherwise it returns the record rewritten for one winning preset:
  the winner offers a candidate and is preferred to every preset that offers one, the
  cost of a preset being the number of occurrences of the marker token in the
  serialized form of its merged candidate (the winner has the fewest; among equal costs
  preset 2 wins, then the lower preset number); in the result the three preset entries
  are removed, \<open>preset_no\<close> is the winner's number, \<open>item_equipment\<close> is the winner's merged
  candidate, and every other entry is as in the input.
\<close>

theorem pick_best_preset_selects_cheapest:
  "(present_presets equip = [] \<longrightarrow> pick_best_preset_by_lowest_drop_rate R equip = Inr equip)
   \<and> (present_presets equip \<noteq> [] \<longrightarrow>
        (\<exists>no key result.
            (no, key) \<in> set (present_presets equip)
          \<and> (\<forall>p \<in> set (present_presets equip).
                preferred (candidate_cost R equip key, no) (candidate_cost R equip (snd p), fst p))
          \<and> pick_best_preset_by_lowest_drop_rate R equip = Inr result
          \<and> map_of result =
              ((map_of equip) |` (- snd ` set preset_keys))
                (k_preset_no \<mapsto> JInt (int no),
                 k_item_equipment \<mapsto> JList (candidate_items R equip key))))"
proof (intro conjI impI)
  assume "present_presets equip = []"
  then show "pick_best_preset_by_lowest_drop_rate R equip = Inr equip"
    using build_candidates_eq [of R equip preset_keys]
    by (simp add: pick_best_preset_by_lowest_drop_rate_def present_presets_def
        base_items_of_def [symmetric])
next
  let ?pp = "present_presets equip"
  let ?cs = "map (candidate_of R equip) ?pp"
  assume ne: "?pp \<noteq> []"
  have bc: "build_candidates R equip (base_items_of equip) preset_keys = Inr ?cs"
    by (simp add: build_candidates_eq present_presets_def)
  have eq: "equip \<noteq> []"
    using ne by (auto simp: present_presets_def preset_items_of_def dget_def filter_empty_conv)
  have "sort_key candidate_sort_key ?cs \<noteq> []"
    using ne by (metis length_sort list.size(3) length_map length_0_conv)
  then obtain c rest where sk: "sort_key candidate_sort_key ?cs = c # rest"
    by (cases "sort_key candidate_sort_key ?cs") auto
  from sort_key_head [OF sk] have cin: "c \<in> set ?cs"
    and cmin: "\<forall>x\<in>set ?cs. candidate_sort_key c \<le> candidate_sort_key x"
    by simp_all
  from cin obtain p where pin: "p \<in> set ?pp" and c: "c = candidate_of R equip p"
    by auto
  obtain no key where p: "p = (no, key)"
    by (cases p)
  let ?result = "AList.update k_item_equipment (JList (candidate_items R equip key))
       (AList.update k_preset_no (JInt (int no))
          (fold (\<lambda>(no, key) d. AList.delete key d) preset_keys equip))"
  have res: "pick_best_preset_by_lowest_drop_rate R equip = Inr ?result"
    using ne eq
    by (simp add: pick_best_preset_by_lowest_drop_rate_def base_items_of_def [symmetric]
        bc sk c p candidate_of_def Let_def)
  have pref: "\<forall>q\<in>set ?pp.
      preferred (candidate_cost R equip key, no) (candidate_cost R equip (snd q), fst q)"
  proof
    fix q assume "q \<in> set ?pp"
    with cmin have "candidate_sort_key (candidate_of R equip p)
        \<le> candidate_sort_key (candidate_of R equip q)"
      by (simp add: c)
    from sort_key_preferred [OF this] show
      "preferred (candidate_cost R equip key, no) (candidate_cost R equip (snd q), fst q)"
      by (simp add: p)
  qed
  show "\<exists>no key result.
            (no, key) \<in> set ?pp
          \<and> (\<forall>p \<in> set ?pp.
                preferred (candidate_cost R equip key, no) (candidate_cost R equip (snd p), fst p))
          \<and> pick_best_preset_by_lowest_drop_rate R equip = Inr result
          \<and> map_of result =
              ((map_of equip) |` (- snd ` set preset_keys))
                (k_preset_no \<mapsto> JInt (int no),
                 k_item_equipment \<mapsto> JList (candidate_items R equip key))"
    using pin pref res trimmed_map unfolding p
    by (intro exI [of _ no] exI [of _ key] exI [of _ ?result] conjI) 
qed

theorem pick_best_preset_selects_cheapest_witness:
  "present_presets ex_equip_marked \<noteq> []
   \<and> candidate_cost no_repr ex_equip_marked (ascii ''item_equipment_preset_1'') = 2
   \<and> candidate_cost no_repr ex_equip_marked (ascii ''item_equipment_preset_2'') = 1
   \<and> candidate_cost no_repr ex_equip_marked (ascii ''item_equipment_preset_3'') = 0
   \<and> pick_best_preset_by_lowest_drop_rate no_repr ex_equip_marked =
       Inr [(ascii ''date'', JNull),
            (k_item_equipment, JList [ex_item ''cape'' (ascii ''b2''), ex_item ''ring'' (ascii ''p3'')]),
            (k_preset_no, JInt 3)]
   \<and> (\<exists>no key. (no, key) \<in> set (present_presets ex_equip_marked)
         \<and> dget ex_equip_marked key = JList [ex_item ''ring'' (ascii ''p3'')]
         \<and> preferred (candidate_cost no_repr ex_equip_marked key, no) (1, 2))
   \<and> pick_best_preset_by_lowest_drop_rate no_repr ex_equip =
       Inr [(ascii ''date'', JNull),
            (k_item_equipment, JList [ex_item ''cape'' (ascii ''b2''), ex_item ''ring'' (ascii ''p2'')]),
            (k_preset_no, JInt 2)]"
proof -
  have pp: "present_presets ex_equip_marked = preset_keys"
    by (simp add: present_presets_def preset_items_of_def ex_equip_marked_def py_eval)
  then have ne: "present_presets ex_equip_marked \<noteq> []"
    by (simp add: preset_keys_def)
  have cc: "candidate_cost no_repr ex_equip_marked key
      = count_drop_rate_mentions (dumps (JList (candidate_items no_repr ex_equip_marked key)))"
    for key
    by (simp only: candidate_cost_def count_drop_rate_mentions_occurrences)
  have c1: "candidate_cost no_repr ex_equip_marked (ascii ''item_equipment_preset_1'') = 2"
    and c2: "candidate_cost no_repr ex_equip_marked (ascii ''item_equipment_preset_2'') = 1"
    and c3: "candidate_cost no_repr ex_equip_marked (ascii ''item_equipment_preset_3'') = 0"
    unfolding cc
    by (simp_all add: candidate_items_def base_items_of_def preset_items_of_def
        ex_equip_marked_def ex_base_def ex_item_def py_eval py_count.simps)
  have ev: "pick_best_preset_by_lowest_drop_rate no_repr ex_equip_marked =
       Inr [(ascii ''date'', JNull),
            (k_item_equipment, JList [ex_item ''cape'' (ascii ''b2''), ex_item ''ring'' (ascii ''p3'')]),
            (k_preset_no, JInt 3)]"
    by (simp add: pick_best_preset_by_lowest_drop_rate_def ex_equip_marked_def ex_base_def
        ex_item_def py_eval candidate_sort_key_def py_count.simps less_eq_prod_def)
  have tie: "pick_best_preset_by_lowest_drop_rate no_repr ex_equip =
       Inr [(ascii ''date'', JNull),
            (k_item_equipment, JList [ex_item ''cape'' (ascii ''b2''), ex_item ''ring'' (ascii ''p2'')]),
            (k_preset_no, JInt 2)]"
    by (simp add: pick_best_preset_by_lowest_drop_rate_def ex_equip_def ex_base_def
        ex_item_def py_eval candidate_sort_key_def py_count.simps less_eq_prod_def)
  from ne pick_best_preset_selects_cheapest [of ex_equip_marked no_repr]
  obtain no key result where in_pp: "(no, key) \<in> set (present_presets ex_equip_marked)"
    and pref: "\<forall>p \<in> set (present_presets ex_equip_marked).
        preferred (candidate_cost no_repr ex_equip_marked key, no)
          (candidate_cost no_repr ex_equip_marked (snd p), fst p)"
    and res: "pick_best_preset_by_lowest_drop_rate no_repr ex_equip_marked = Inr result"
    and m: "map_of result =
        ((map_of ex_equip_marked) |` (- snd ` set preset_keys))
          (k_preset_no \<mapsto> JInt (int no),
           k_item_equipment \<mapsto> JList (candidate_items no_repr ex_equip_marked key))"
    by blast
  from res ev have "result =
       [(ascii ''date'', JNull),
        (k_item_equipment, JList [ex_item ''cape'' (ascii ''b2''), ex_item ''ring'' (ascii ''p3'')]),
        (k_preset_no, JInt 3)]"
    by simp
  then have "map_of result k_preset_no = Some (JInt 3)"
    by (simp add: k_preset_no_def k_item_equipment_def ascii_def)
  moreover have "map_of result k_preset_no = Some (JInt (int no))"
    unfolding m by (simp add: k_preset_no_def k_item_equipment_def ascii_def)
  ultimately have no: "no = 3"
    by simp
  with in_pp pp have key: "key = ascii ''item_equipment_preset_3''"
    by (auto simp: preset_keys_def)
  have g: "dget ex_equip_marked key = JList [ex_item ''ring'' (ascii ''p3'')]"
    by (simp add: key ex_equip_marked_def py_eval)
  have "(2, ascii ''item_equipment_preset_2'') \<in> set (present_presets ex_equip_marked)"
    by (simp add: pp preset_keys_def)
  with pref have "preferred (candidate_cost no_repr ex_equip_marked key, no)
      (candidate_cost no_repr ex_equip_marked (ascii ''item_equipment_preset_2''), 2)"
    by fastforce
  then have "preferred (candidate_cost no_repr ex_equip_marked key, no) (1, 2)"
    by (simp only: c2)
  with ne c1 c2 c3 ev tie in_pp g show ?thesis
    by blast
qed

subsection \<open>The single writer\<close>

lemma writer_loop_sentinel:
  "settled st \<Longrightarrow>
   \<exists>st'. writer_loop execute b (map Some items @ None # rest) st = (Stopped, st', rest)
      \<and> conn st' = foldl (apply_or_skip execute) (conn st) items
      \<and> committed st' = conn st'"
proof (induction items arbitrary: st)
  case Nil
  then show ?case
    by (auto simp: settled_def commit_def split: if_splits)
next
  case (Cons item items)
  have c: "conn (writer_step execute b item st) = apply_or_skip execute (conn st) item"
    by (simp add: writer_step_def apply_or_skip_def commit_def Let_def split: sum.splits)
  have s: "settled (writer_step execute b item st)"
    by (simp add: writer_step_def settled_def commit_def Let_def)
  from Cons.IH [OF s] c show ?case
    by simp
qed

text \<open>
  C9. Whatever intents precede the sentinel and whichever of them fail, the writer takes
  every intent up to the sentinel, applies each in turn to the database left by the ones
  before it (a failing intent changes nothing and stops nothing), and on the sentinel
  stops with everything applied committed; it takes no item after the sentinel.
\<close>

theorem writer_task_skips_failures_and_flushes:
  "\<exists>st'. writer_task execute db_batch (map Some items @ None # rest) db0 = (Stopped, st', rest)
      \<and> conn st' = foldl (apply_or_skip execute) db0 items
      \<and> committed st' = conn st'"
  using writer_loop_sentinel [of "\<lparr>conn = db0, committed = db0, pending = 0\<rparr>" execute]
  by (simp add: writer_task_def settled_def)

theorem writer_task_skips_failures_and_flushes_witness:
  "\<exists>st'. writer_task ex_execute 50 [Some 1, Some (- 1), Some 2, None, Some 3] [] = (Stopped, st', [Some 3])
      \<and> committed st' = [1, 2]"
  using writer_task_skips_failures_and_flushes [of ex_execute 50 "[1, - 1, 2]" "[Some 3]" "[]"]
  by (auto simp: apply_or_skip_def ex_execute_def)

subsection \<open>Profile upserts\<close>

text \<open>The backfill's upsert keeps the larger level and keeps a stored value when the
  incoming one is absent.\<close>

lemma write_basic_results_level_monotone:
  assumes "tbl ocid = Some row" and "character_level row = Some l"
  shows "\<exists>row' l'. upsert_write_basic_results tbl ocid excluded ocid = Some row'
           \<and> character_level row' = Some l' \<and> l \<le> l'"
  using assms
  by (auto simp: upsert_write_basic_results_def coalesce_def split: option.splits)

lemma write_basic_results_coalesces:
  assumes "tbl ocid = Some row"
  shows "\<exists>row'. upsert_write_basic_results tbl ocid excluded ocid = Some row'
      \<and> (character_gender excluded = None \<longrightarrow> character_gender row' = character_gender row)
      \<and> (character_class excluded = None \<longrightarrow> character_class row' = character_class row)
      \<and> (character_exp_rate excluded = None \<longrightarrow> character_exp_rate row' = character_exp_rate row)
      \<and> (character_guild_name excluded = None
            \<longrightarrow> character_guild_name row' = character_guild_name row)
      \<and> (character_image excluded = None \<longrightarrow> character_image row' = character_image row)
      \<and> (character_date_create excluded = None
            \<longrightarrow> character_date_create row' = character_date_create row)"
  using assms
  by (simp add: upsert_write_basic_results_def coalesce_def)

text \<open>
  C2. The stored level is meant never to decrease. In \<open>update_characters\<close> it does: with
  level 200 stored for the entity and a profile response carrying level 180, the row
  holds level 180 after the write.
\<close>

theorem update_characters_level_regresses:
  "map_option character_level (ex_characters ex_ocid) = Some (Some 200)
   \<and> api_character_level ex_basic = Some 180
   \<and> map_option character_level
        (write_basic int_of_str float_of_str lower ex_ocid name world ex_basic now
           ex_characters ex_ocid) = Some (Some 180)"
  by (simp add: ex_characters_def ex_stored_def ex_basic_def write_basic_def
      update_characters_params_def num_of_str_or_0_def int_or_0_def
      upsert_update_characters_def)

text \<open>
  C3. A stored value is meant to survive a write whose incoming record lacks the field.
  In \<open>update_characters\<close> it does not: with a class stored and a profile response without
  one, the stored class is \<open>NULL\<close> after the write (and the stored experience rate
  becomes 0).
\<close>

theorem update_characters_overwrites_with_null:
  "map_option character_class (ex_characters ex_ocid) = Some (Some (ascii ''Hero''))
   \<and> api_character_class ex_basic = None
   \<and> map_option character_class
        (write_basic int_of_str float_of_str lower ex_ocid name world ex_basic now
           ex_characters ex_ocid) = Some None
   \<and> map_option character_exp_rate
        (write_basic int_of_str float_of_str lower ex_ocid name world ex_basic now
           ex_characters ex_ocid) = Some (Some 0)"
  by (simp add: ex_characters_def ex_stored_def ex_basic_def write_basic_def
      update_characters_params_def num_of_str_or_0_def int_or_0_def
      upsert_update_characters_def)

subsection \<open>Staleness check\<close>

text \<open>
  C10. \<open>should_refresh_character\<close> answers True when no freshness timestamp is stored for
  the entity; when the stored timestamp does not parse, the age is 999999 days and the
  answer is True for every threshold up to 999999; when it parses, the answer is True
  exactly when its date lies at least \<open>refresh_days\<close> days before today.
\<close>

theorem should_refresh_character_stale:
  "(basic_updated_at db ocid = None
      \<longrightarrow> should_refresh_character fromisoformat today db ocid refresh_days)
   \<and> (\<forall>u e. basic_updated_at db ocid = Some u \<and> fromisoformat (replace_Z u) = Inl e
          \<and> refresh_days \<le> 999999
      \<longrightarrow> days_since fromisoformat today u = 999999
          \<and> should_refresh_character fromisoformat today db ocid refresh_days)
   \<and> (\<forall>u t. basic_updated_at db ocid = Some u \<and> u \<noteq> []
          \<and> fromisoformat (replace_Z u) = Inr t
      \<longrightarrow> (should_refresh_character fromisoformat today db ocid refresh_days
            \<longleftrightarrow> refresh_days \<le> today - dt_day t))"
  by (auto simp: should_refresh_character_def days_since_def)

theorem should_refresh_character_stale_witness:
  "basic_updated_at ex_characters (ascii ''other'') = None
   \<and> should_refresh_character ex_fromisoformat 739262 ex_characters (ascii ''other'') 7
   \<and> basic_updated_at (ex_characters(ex_ocid \<mapsto> ex_stored\<lparr>updated_at := Some (ascii ''soon'')\<rparr>)) ex_ocid
       = Some (ascii ''soon'')
   \<and> ex_fromisoformat (replace_Z (ascii ''soon'')) = Inl ValueError
   \<and> should_refresh_character ex_fromisoformat 739262
        (ex_characters(ex_ocid \<mapsto> ex_stored\<lparr>updated_at := Some (ascii ''soon'')\<rparr>)) ex_ocid 999999
   \<and> basic_updated_at ex_characters ex_ocid = Some (ascii ''2025-01-01T08:00:00'')
   \<and> should_refresh_character ex_fromisoformat 739262 ex_characters ex_ocid 10
   \<and> \<not> should_refresh_character ex_fromisoformat 739262 ex_characters ex_ocid 11"
proof -
  let ?db2 = "ex_characters(ex_ocid \<mapsto> ex_stored\<lparr>updated_at := Some (ascii ''soon'')\<rparr>)"
  let ?t = "\<lparr>dt_day = 739252, dt_hour = 8, dt_minute = 0, dt_second = 0, dt_micro = 0\<rparr>"
  have a: "basic_updated_at ex_characters (ascii ''other'') = None"
    by (simp add: basic_updated_at_def ex_characters_def ex_ocid_def ascii_def)
  have b: "basic_updated_at ?db2 ex_ocid = Some (ascii ''soon'')"
    by (simp add: basic_updated_at_def)
  have c: "ex_fromisoformat (replace_Z (ascii ''soon'')) = Inl ValueError"
    by (simp add: ex_fromisoformat_def replace_Z_def ascii_def)
  have d: "basic_updated_at ex_characters ex_ocid = Some (ascii ''2025-01-01T08:00:00'')"
    by (simp add: basic_updated_at_def ex_characters_def ex_stored_def)
  have e: "ex_fromisoformat (replace_Z (ascii ''2025-01-01T08:00:00'')) = Inr ?t"
    by (simp add: ex_fromisoformat_def replace_Z_def ascii_def)
  have n: "ascii ''2025-01-01T08:00:00'' \<noteq> []"
    by (simp add: ascii_def)
  from a should_refresh_character_stale [of ex_characters "ascii ''other''" ex_fromisoformat 739262 7]
  have 1: "should_refresh_character ex_fromisoformat 739262 ex_characters (ascii ''other'') 7"
    by blast
  from b c should_refresh_character_stale [of ?db2 ex_ocid ex_fromisoformat 739262 999999]
  have 2: "should_refresh_character ex_fromisoformat 739262 ?db2 ex_ocid 999999"
    by simp
  from d e n should_refresh_character_stale [of ex_characters ex_ocid ex_fromisoformat 739262 10]
  have 3: "should_refresh_character ex_fromisoformat 739262 ex_characters ex_ocid 10"
    by simp
  from d e n should_refresh_character_stale [of ex_characters ex_ocid ex_fromisoformat 739262 11]
  have 4: "\<not> should_refresh_character ex_fromisoformat 739262 ex_characters ex_ocid 11"
    by simp
  from a b c d 1 2 3 4 show ?thesis
    by (intro conjI)
qed

subsection \<open>API client\<close>

lemma utf8_encode_char_Some: "(\<exists>b. utf8_encode_char c = Some b) \<longleftrightarrow> encodable [c]"
  by (auto simp: utf8_encode_char_def encodable_def)

lemma utf8_encode_Some: "(\<exists>bs. utf8_encode s = Some bs) \<longleftrightarrow> encodable s"
proof (induction s)
  case Nil
  show ?case
    by (simp add: encodable_def)
next
  case (Cons c s)
  have "encodable (c # s) \<longleftrightarrow> encodable [c] \<and> encodable s"
    by (simp add: encodable_def)
  with Cons utf8_encode_char_Some [of c] show ?case
    by (auto split: option.splits)
qed

lemma quote_encodable: "encodable s \<Longrightarrow> \<exists>q. quote s = Inr q"
  using utf8_encode_Some [of s] by (auto simp: quote_def)

lemma quote_not_encodable: "\<not> encodable s \<Longrightarrow> quote s = Inl (UnicodeEncodeError, [])"
  using utf8_encode_Some [of s] by (auto simp: quote_def encodable_def split: option.splits)

lemma url_param_encodable:
  "encodable s \<Longrightarrow> url = Inr u \<Longrightarrow> \<exists>v. url_param url key s = Inr v"
  using quote_encodable [of s] by (auto simp: url_param_def)

lemma url_param_not_encodable:
  "\<not> encodable s \<Longrightarrow> url = Inr u \<Longrightarrow> url_param url key s = Inl (UnicodeEncodeError, [])"
  using quote_not_encodable [of s] by (simp add: url_param_def)

lemma url_param_Inl: "url_param (Inl e) key s = Inl e"
  by (simp add: url_param_def)

lemma url_param_cases:
  "url_param (Inr u) key s = (if encodable s then Inr (u @ key @ projr (quote s))
     else Inl (UnicodeEncodeError, []))"
  using quote_encodable [of s] quote_not_encodable [of s] by (auto simp: url_param_def)

lemma encodable_Nil: "encodable []"
  by (simp add: encodable_def)

lemma request_url_encodable:
  "list_all encodable (request_args req) \<Longrightarrow> \<exists>url. request_url req = Inr url"
  by (cases req)
    (auto simp: url_ocid_def url_basic_def url_stat_def url_guild_id_def url_guild_basic_def
      url_item_equipment_def url_param_cases split: option.splits)

lemma request_url_not_encodable:
  "\<not> list_all encodable (request_args req) \<Longrightarrow> request_url req = Inl (UnicodeEncodeError, [])"
  by (cases req)
    (auto simp: url_ocid_def url_basic_def url_stat_def url_guild_id_def url_guild_basic_def
      url_item_equipment_def url_param_cases url_param_Inl encodable_Nil split: option.splits)

lemma call_eq: "call session_get req = fetch_url session_get (request_url req)"
  by (cases req)
    (simp_all add: get_ocid_def get_basic_def get_stat_def get_guild_id_def get_guild_basic_def
      get_item_equipment_def)

lemma truthy_falsy_values: "truthy data \<longleftrightarrow> data \<notin> falsy_values"
  by (cases data) (auto simp: falsy_values_def)

lemma fetch_url_cases:
  "(catchable (session_get url)
      \<and> (\<forall>resp. session_get url = Inr resp
             \<longrightarrow> catchable (resp_text resp) \<and> catchable (resp_json resp))
      \<longrightarrow> (\<exists>v. fetch_url session_get (Inr url) = Inr v))
   \<and> (\<forall>c msg. session_get url = Inl (c, msg)
      \<longrightarrow> fetch_url session_get (Inr url) = (if is_Exception c then Inr JNull else Inl (c, msg)))
   \<and> (\<forall>resp. session_get url = Inr resp \<and> resp_status resp \<noteq> 200
          \<and> catchable (resp_text resp)
      \<longrightarrow> fetch_url session_get (Inr url) = Inr JNull)
   \<and> (\<forall>resp c msg. session_get url = Inr resp \<and> resp_status resp = 200
          \<and> resp_json resp = Inl (c, msg) \<and> is_Exception c
      \<longrightarrow> fetch_url session_get (Inr url) = Inr JNull)
   \<and> (\<forall>resp data. session_get url = Inr resp \<and> resp_status resp = 200
          \<and> resp_json resp = Inr data
      \<longrightarrow> fetch_url session_get (Inr url) = Inr (if data \<in> falsy_values then JNull else data))"
  by (auto simp: fetch_url_def data_or_none_def get_json_def catchable_def Let_def
      truthy_falsy_values split: sum.splits)

lemmas url_eval = utf8_encode_char_def is_safe_def upper_hex_digit_def quote_byte_def quote_def
  url_param_def url_ocid_def url_basic_def url_stat_def url_guild_id_def url_guild_basic_def
  url_item_equipment_def BASE_URL_def ascii_def

lemmas client_eval = url_eval fetch_url_def get_ocid_def get_basic_def get_stat_def get_guild_id_def
  get_guild_basic_def get_item_equipment_def data_or_none_def get_json_def

text \<open>
  The URL of a request is the base URL, the path and the argument percent-encoded:
  ASCII letters stay, and a name in Chinese script becomes the \<open>%XX\<close> of its UTF-8 bytes.
\<close>

lemma request_url_examples:
  "request_url (GetOcid (ascii ''Aria''))
     = Inr (ascii ''https://open.api.nexon.com/maplestorytw/v1/id?character_name=Aria'')"
  "request_url (GetGuildId [25361, 25136, 32773] (ascii ''a b''))
     = Inr (ascii ''https://open.api.nexon.com/maplestorytw/v1/guild/id?guild_name=%E6%8C%91%E6%88%B0%E8%80%85&world_name=a%20b'')"
  "request_url (GetStat (ascii ''o1'') (Some (ascii ''2025-01-01'')))
     = Inr (ascii ''https://open.api.nexon.com/maplestorytw/v1/character/stat?ocid=o1&date=2025-01-01'')"
  "request_url (GetStat (ascii ''o1'') (Some []))
     = Inr (ascii ''https://open.api.nexon.com/maplestorytw/v1/character/stat?ocid=o1'')"
  by (simp_all add: url_eval)

text \<open>
  C6, as amended. For every operation of the client. If one of its text arguments has
  no UTF-8 encoding (it holds a lone surrogate), the operation raises \<open>UnicodeEncodeError\<close>
  to its caller: the URL is built outside the \<open>try\<close>. Otherwise the URL is built and,
  with the transport asked for that URL: the operation returns to its caller (it raises
  nothing) whenever the transport, the reading of the body and its decoding raise only
  exceptions derived from \<open>Exception\<close>; when the request raises (a timeout, a network
  failure) it returns \<open>None\<close> if the exception derives from \<open>Exception\<close> and lets the
  exception through if not (a cancellation); it returns \<open>None\<close> when the status is any
  other than 200, be it 404 or 201, and when the body of a response of status 200 does
  not decode; on a response of status 200 whose body decodes, it returns the decoded data
  unless that value is one of \<open>null\<close>, \<open>false\<close>, \<open>0\<close>, the empty string, the empty list and
  the empty object, for which it returns \<open>None\<close>.
\<close>

theorem client_call_fails_soft:
  "(\<not> list_all encodable (request_args req)
      \<longrightarrow> call session_get req = Inl (UnicodeEncodeError, []))
   \<and> (list_all encodable (request_args req) \<longrightarrow>
        (\<exists>url. request_url req = Inr url
           \<and> (catchable (session_get url)
                \<and> (\<forall>resp. session_get url = Inr resp
                       \<longrightarrow> catchable (resp_text resp) \<and> catchable (resp_json resp))
                \<longrightarrow> (\<exists>v. call session_get req = Inr v))
           \<and> (\<forall>c msg. session_get url = Inl (c, msg)
                \<longrightarrow> call session_get req = (if is_Exception c then Inr JNull else Inl (c, msg)))
           \<and> (\<forall>resp. session_get url = Inr resp \<and> resp_status resp \<noteq> 200
                    \<and> catchable (resp_text resp)
                \<longrightarrow> call session_get req = Inr JNull)
           \<and> (\<forall>resp c msg. session_get url = Inr resp \<and> resp_status resp = 200
                    \<and> resp_json resp = Inl (c, msg) \<and> is_Exception c
                \<longrightarrow> call session_get req = Inr JNull)
           \<and> (\<forall>resp data. session_get url = Inr resp \<and> resp_status resp = 200
                    \<and> resp_json resp = Inr data
                \<longrightarrow> call session_get req
                      = Inr (if data \<in> falsy_values then JNull else data))))"
proof (rule conjI; rule impI)
  assume "\<not> list_all encodable (request_args req)"
  then show "call session_get req = Inl (UnicodeEncodeError, [])"
    by (simp add: call_eq request_url_not_encodable fetch_url_def)
next
  assume "list_all encodable (request_args req)"
  then obtain url where u: "request_url req = Inr url"
    using request_url_encodable by blast
  show "\<exists>url. request_url req = Inr url
           \<and> (catchable (session_get url)
                \<and> (\<forall>resp. session_get url = Inr resp
                       \<longrightarrow> catchable (resp_text resp) \<and> catchable (resp_json resp))
                \<longrightarrow> (\<exists>v. call session_get req = Inr v))
           \<and> (\<forall>c msg. session_get url = Inl (c, msg)
                \<longrightarrow> call session_get req = (if is_Exception c then Inr JNull else Inl (c, msg)))
           \<and> (\<forall>resp. session_get url = Inr resp \<and> resp_status resp \<noteq> 200
                    \<and> catchable (resp_text resp)
                \<longrightarrow> call session_get req = Inr JNull)
           \<and> (\<forall>resp c msg. session_get url = Inr resp \<and> resp_status resp = 200
                    \<and> resp_json resp = Inl (c, msg) \<and> is_Exception c
                \<longrightarrow> call session_get req = Inr JNull)
           \<and> (\<forall>resp data. session_get url = Inr resp \<and> resp_status resp = 200
                    \<and> resp_json resp = Inr data
                \<longrightarrow> call session_get req
                      = Inr (if data \<in> falsy_values then JNull else data))"
    unfolding call_eq u
    by (rule exI [of _ url], rule conjI, rule refl, rule fetch_url_cases)
qed

text \<open>
  C6 as stated fails: a response of status 200 whose body decodes to the empty object is
  not returned as data but as \<open>None\<close>.
\<close>

theorem client_call_empty_body_counterexample:
  "request_url (GetOcid (ascii ''Aria''))
      = Inr (ascii ''https://open.api.nexon.com/maplestorytw/v1/id?character_name=Aria'')
   \<and> ex_http ex_empty_object (ascii ''https://open.api.nexon.com/maplestorytw/v1/id?character_name=Aria'')
      = Inr (Response 200 (Inr (ascii ''{}'')) (Inr (JDict [])))
   \<and> call (ex_http ex_empty_object) (GetOcid (ascii ''Aria'')) = Inr JNull
   \<and> call (ex_http ex_empty_object) (GetOcid (ascii ''Aria'')) \<noteq> Inr (JDict [])"
  by (simp add: ex_http_def ex_empty_object_def client_eval)

theorem client_call_fails_soft_witness:
  "call (ex_http (Inl (TimeoutError, ascii ''timeout''))) (GetBasic (ascii ''o1'')) = Inr JNull
   \<and> call (ex_http (Inl (CancelledError, []))) (GetBasic (ascii ''o1'')) = Inl (CancelledError, [])
   \<and> call ex_server (GetStat (ascii ''o1'') None) = Inr JNull
   \<and> call (ex_http (Inr (Response 201 (Inr []) (Inr (JDict [(ascii ''ocid'', JStr (ascii ''o1''))])))))
        (GetGuildBasic (ascii ''g1'')) = Inr JNull
   \<and> call (ex_http (Inr (Response 200 (Inr (ascii ''<html>'')) (Inl (JSONDecodeError, [])))))
        (GetItemEquipment (ascii ''o1'') (Some (ascii ''2025-01-01''))) = Inr JNull
   \<and> call ex_server (GetOcid (ascii ''Aria'')) = Inr (JDict [(ascii ''ocid'', JStr (ascii ''o1''))])
   \<and> call (ex_http (Inr (Response 200 (Inr (ascii ''0'')) (Inr (JInt 0)))))
        (GetGuildId (ascii ''g'') (ascii ''w'')) = Inr JNull
   \<and> call ex_server (GetOcid [65, 56320]) = Inl (UnicodeEncodeError, [])"
proof -
  note t = client_call_fails_soft
  have 1: "call (ex_http (Inl (TimeoutError, ascii ''timeout''))) (GetBasic (ascii ''o1'')) = Inr JNull"
    using t [of "GetBasic (ascii ''o1'')" "ex_http (Inl (TimeoutError, ascii ''timeout''))"]
    by (simp add: ex_http_def encodable_def url_eval)
  have 2: "call (ex_http (Inl (CancelledError, []))) (GetBasic (ascii ''o1'')) = Inl (CancelledError, [])"
    using t [of "GetBasic (ascii ''o1'')" "ex_http (Inl (CancelledError, []))"]
    by (simp add: ex_http_def encodable_def url_eval)
  have 3: "call ex_server (GetStat (ascii ''o1'') None) = Inr JNull"
    using t [of "GetStat (ascii ''o1'') None" ex_server]
    by (simp add: ex_server_def encodable_def catchable_def url_eval)
  have 4: "call (ex_http (Inr (Response 201 (Inr []) (Inr (JDict [(ascii ''ocid'', JStr (ascii ''o1''))])))))
        (GetGuildBasic (ascii ''g1'')) = Inr JNull"
    using t [of "GetGuildBasic (ascii ''g1'')"
        "ex_http (Inr (Response 201 (Inr []) (Inr (JDict [(ascii ''ocid'', JStr (ascii ''o1''))]))))"]
    by (simp add: ex_http_def encodable_def catchable_def url_eval)
  have 5: "call (ex_http (Inr (Response 200 (Inr (ascii ''<html>'')) (Inl (JSONDecodeError, [])))))
        (GetItemEquipment (ascii ''o1'') (Some (ascii ''2025-01-01''))) = Inr JNull"
    using t [of "GetItemEquipment (ascii ''o1'') (Some (ascii ''2025-01-01''))"
        "ex_http (Inr (Response 200 (Inr (ascii ''<html>'')) (Inl (JSONDecodeError, []))))"]
    by (simp add: ex_http_def encodable_def url_eval)
  have 6: "call ex_server (GetOcid (ascii ''Aria'')) = Inr (JDict [(ascii ''ocid'', JStr (ascii ''o1''))])"
    using t [of "GetOcid (ascii ''Aria'')" ex_server]
    by (simp add: ex_server_def encodable_def falsy_values_def url_eval)
  have 7: "call (ex_http (Inr (Response 200 (Inr (ascii ''0'')) (Inr (JInt 0)))))
        (GetGuildId (ascii ''g'') (ascii ''w'')) = Inr JNull"
    using t [of "GetGuildId (ascii ''g'') (ascii ''w'')"
        "ex_http (Inr (Response 200 (Inr (ascii ''0'')) (Inr (JInt 0))))"]
    by (simp add: ex_http_def encodable_def falsy_values_def url_eval)
  have 8: "call ex_server (GetOcid [65, 56320]) = Inl (UnicodeEncodeError, [])"
    using t [of "GetOcid [65, 56320]" ex_server]
    by (simp add: encodable_def)
  from 1 2 3 4 5 6 7 8 show ?thesis
    by (intro conjI)
qed

lemma slash_not_digit: "\<not> is_digit 47"
  by (simp add: is_digit_def digit_value_def decimal_blocks_def)

lemma slash_not_space: "\<not> isspace 47"
  by (simp add: isspace_def)

subsection \<open>Classification of list records\<close>

lemma decimal_blocks_bounds:
  "\<forall>(start, n) \<in> set decimal_blocks.
      (48 \<le> start \<and> start + n \<le> 58) \<or> (1632 \<le> start \<and> start + n \<le> 4250)
      \<or> (6112 \<le> start \<and> start + n \<le> 7258) \<or> 42528 \<le> start"
  by (simp add: decimal_blocks_def)

lemma is_digit_range:
  assumes "is_digit c"
  shows "(48 \<le> c \<and> c < 58) \<or> (1632 \<le> c \<and> c < 4250) \<or> (6112 \<le> c \<and> c < 7258) \<or> 42528 \<le> c"
proof -
  from assms obtain start n where f: "find (\<lambda>(start, n). start \<le> c \<and> c < start + n) decimal_blocks = Some (start, n)"
    by (auto simp: is_digit_def digit_value_def split: option.splits)
  then have "(start, n) \<in> set decimal_blocks" and "start \<le> c \<and> c < start + n"
    by (auto simp: find_Some_iff dest: nth_mem)
  with decimal_blocks_bounds show ?thesis
    by fastforce
qed

lemma space_not_digit: "isspace c \<Longrightarrow> \<not> is_digit c"
  by (auto simp: isspace_def dest!: is_digit_range)

lemma digit_not_space: "is_digit c \<Longrightarrow> \<not> isspace c"
  using space_not_digit by blast

lemma strip_decomp:
  "\<exists>a b. s = a @ strip s @ b \<and> list_all isspace a \<and> list_all isspace b"
proof -
  let ?t = "dropWhile isspace s"
  have 1: "s = takeWhile isspace s @ ?t"
    by simp
  have "rev (takeWhile isspace (rev ?t) @ dropWhile isspace (rev ?t)) = rev (rev ?t)"
    by (simp only: takeWhile_dropWhile_id)
  then have "rev (dropWhile isspace (rev ?t)) @ rev (takeWhile isspace (rev ?t)) = ?t"
    by (simp only: rev_append rev_rev_ident)
  then have 2: "?t = strip s @ rev (takeWhile isspace (rev ?t))"
    by (simp only: strip_def)
  have 3: "list_all isspace (takeWhile isspace s)"
    and 4: "list_all isspace (rev (takeWhile isspace (rev ?t)))"
    by (auto simp: list_all_iff dest: set_takeWhileD)
  from 1 2 have "s = takeWhile isspace s @ strip s @ rev (takeWhile isspace (rev ?t))"
    by metis
  with 3 4 show ?thesis
    by blast
qed

lemma strip_exact:
  assumes "list_all isspace a" and "list_all isspace b"
    and "t \<noteq> []" and "\<not> isspace (hd t)" and "\<not> isspace (last t)"
  shows "strip (a @ t @ b) = t"
proof -
  obtain x xs where t: "t = x # xs"
    using assms(3) by (cases t) auto
  have "dropWhile isspace (a @ t @ b) = t @ b"
    using assms(1,4) by (simp add: t dropWhile_append list_all_iff)
  moreover have "dropWhile isspace (rev b @ rev t) = rev t"
    using assms(2,3,5) by (simp add: dropWhile_append list_all_iff hd_rev last_rev
        dropWhile_eq_self_iff)
  ultimately show ?thesis
    by (simp add: strip_def)
qed

lemma take_digits_prefix:
  "\<exists>r. xs = takeWhile P (take n xs) @ r \<and> r = drop (length (takeWhile P (take n xs))) xs"
proof -
  let ?m = "takeWhile P (take n xs)"
  have "?m = take (length ?m) (take n xs)"
    by (rule takeWhile_eq_take)
  moreover have "length ?m \<le> length (take n xs)"
    by (rule length_takeWhile_le)
  then have "length ?m \<le> n"
    by simp
  moreover note this
  ultimately have "?m = take (length ?m) xs"
    by (simp add: min_absorb1)
  then have "xs = ?m @ drop (length ?m) xs"
    by (metis append_take_drop_id)
  then show ?thesis
    by blast
qed

lemma take_digits_props:
  "length (takeWhile P (take 2 xs)) \<le> 2" "list_all P (takeWhile P (take 2 xs))"
proof -
  have "length (takeWhile P (take 2 xs)) \<le> length (take 2 xs)"
    by (rule length_takeWhile_le)
  then show "length (takeWhile P (take 2 xs)) \<le> 2"
    by simp
  show "list_all P (takeWhile P (take 2 xs))"
    by (auto simp: list_all_iff dest: set_takeWhileD)
qed

lemma takeWhile_digits_append:
  assumes "list_all is_digit m" and "r = [] \<or> \<not> is_digit (hd r)"
  shows "takeWhile is_digit (m @ r) = m"
  using assms by (cases r) (auto simp: list_all_iff takeWhile_append2)

lemma take_digits_exact:
  assumes "list_all is_digit m" and "length m \<le> 2" and "r = [] \<or> \<not> is_digit (hd r)"
  shows "takeWhile is_digit (take 2 (m @ r)) = m"
proof -
  let ?r = "take (2 - length m) r"
  have "?r = [] \<or> \<not> is_digit (hd ?r)"
    using assms(3) by (cases r) auto
  with assms(1) have "takeWhile is_digit (m @ ?r) = m"
    by (rule takeWhile_digits_append)
  moreover have "take 2 (m @ r) = m @ ?r"
    using assms(2) by simp
  ultimately show ?thesis
    by simp
qed

lemma re_digits_split:
  assumes "re_digits n s = (ds, r)"
  shows "s = ds @ r" and "list_all is_digit ds" and "length ds \<le> n"
proof -
  from assms have ds: "ds = takeWhile is_digit (take n s)" and r: "r = drop (length ds) s"
    by (auto simp: re_digits_def Let_def)
  from take_digits_prefix [of s is_digit n] show "s = ds @ r"
    by (simp add: ds r)
  show "list_all is_digit ds"
    by (auto simp: ds list_all_iff dest: set_takeWhileD)
  have "length ds \<le> length (take n s)"
    unfolding ds by (rule length_takeWhile_le)
  then show "length ds \<le> n"
    by simp
qed

lemma re_digits_exact:
  assumes "list_all is_digit ds" and "length ds \<le> n" and "r = [] \<or> \<not> is_digit (hd r)"
  shows "re_digits n (ds @ r) = (ds, r)"
proof -
  let ?r = "take (n - length ds) r"
  have "?r = [] \<or> \<not> is_digit (hd ?r)"
    using assms(3) by (cases r; cases "n - length ds") auto
  with assms(1) have "takeWhile is_digit (ds @ ?r) = ds"
    by (rule takeWhile_digits_append)
  moreover have "take n (ds @ r) = ds @ ?r"
    using assms(2) by simp
  ultimately show ?thesis
    by (simp add: re_digits_def)
qed

lemma re_char_iff: "re_char c s = Some r \<longleftrightarrow> s = c # r"
  by (auto simp: re_char_def split: list.splits)

lemma re_ymd_intro:
  assumes a: "list_all isspace a" and b: "list_all isspace b" and t: "ymd_text t y m d"
  shows "re_ymd (a @ t @ b) = Some (y, m, d)"
proof -
  from t have t': "t = y @ [47] @ m @ [47] @ d"
    and y: "length y = 4" "list_all is_digit y"
    and m: "m \<noteq> []" "length m \<le> 2" "list_all is_digit m"
    and d: "d \<noteq> []" "length d \<le> 2" "list_all is_digit d"
    by (simp_all add: ymd_text_def)
  obtain y0 ys where y0: "y = y0 # ys"
    using y(1) by (cases y) auto
  with y(2) have "\<not> isspace y0"
    by (auto dest: digit_not_space)
  then have 1: "dropWhile isspace (a @ t @ b) = y @ (47 # m @ 47 # d @ b)"
    using a by (simp add: t' y0 dropWhile_append list_all_iff)
  have 2: "re_digits 4 (y @ (47 # m @ 47 # d @ b)) = (y, 47 # m @ 47 # d @ b)"
    using y by (intro re_digits_exact) (simp_all add: slash_not_digit)
  have 3: "re_digits 2 (m @ (47 # d @ b)) = (m, 47 # d @ b)"
    using m by (intro re_digits_exact) (simp_all add: slash_not_digit)
  have "b = [] \<or> \<not> is_digit (hd b)"
    using b by (cases b) (auto dest: space_not_digit)
  with d have 4: "re_digits 2 (d @ b) = (d, b)"
    by (intro re_digits_exact) simp_all
  have 5: "re_char 47 (47 # m @ 47 # d @ b) = Some (m @ (47 # d @ b))"
    and 6: "re_char 47 (47 # d @ b) = Some (d @ b)"
    by (simp_all add: re_char_iff)
  show ?thesis
    unfolding re_ymd_def 1 2 using y(1) m(1) d(1) b
    by (simp add: 3 4 5 6)
qed

lemma re_ymd_elim:
  assumes "re_ymd s = Some (y, m, d)"
  shows "\<exists>a b t. s = a @ t @ b \<and> list_all isspace a \<and> list_all isspace b \<and> ymd_text t y m d"
proof -
  from assms obtain r1 r2 r3 r4 r5 where
    1: "re_digits 4 (dropWhile isspace s) = (y, r1)" and y: "length y = 4"
    and 2: "re_char 47 r1 = Some r2"
    and 3: "re_digits 2 r2 = (m, r3)" and m: "m \<noteq> []"
    and 4: "re_char 47 r3 = Some r4"
    and 5: "re_digits 2 r4 = (d, r5)" and d: "d \<noteq> []"
    and 6: "list_all isspace r5"
    by (auto simp: re_ymd_def split: prod.splits option.splits if_splits)
  have "s = takeWhile isspace s @ dropWhile isspace s"
    by simp
  also have "dropWhile isspace s = y @ r1"
    using 1 by (rule re_digits_split)
  also have "r1 = 47 # r2"
    using 2 by (simp add: re_char_iff)
  also have "r2 = m @ r3"
    using 3 by (rule re_digits_split)
  also have "r3 = 47 # r4"
    using 4 by (simp add: re_char_iff)
  also have "r4 = d @ r5"
    using 5 by (rule re_digits_split)
  finally have "s = takeWhile isspace s @ (y @ [47] @ m @ [47] @ d) @ r5"
    by simp
  moreover have "list_all isspace (takeWhile isspace s)"
    by (auto simp: list_all_iff dest: set_takeWhileD)
  moreover have "ymd_text (y @ [47] @ m @ [47] @ d) y m d"
    unfolding ymd_text_def
    using y m d re_digits_split(2,3) [OF 1] re_digits_split(2,3) [OF 3] re_digits_split(2,3) [OF 5]
    by simp
  ultimately show ?thesis
    using 6 by blast
qed

lemma ymd_text_ends:
  assumes "ymd_text t y m d"
  shows "t \<noteq> []" and "\<not> isspace (hd t)" and "\<not> isspace (last t)"
proof -
  from assms obtain y0 ys where "y = y0 # ys" and "is_digit y0"
    by (cases y) (auto simp: ymd_text_def)
  with assms show "t \<noteq> []" and "\<not> isspace (hd t)"
    by (auto simp: ymd_text_def dest: digit_not_space)
  from assms have "d \<noteq> []" and "list_all is_digit d" and "last t = last d"
    by (auto simp: ymd_text_def)
  then show "\<not> isspace (last t)"
    by (metis digit_not_space last_in_set list_all_iff)
qed

lemma re_ymd_strip_1:
  assumes "re_ymd (strip s) = Some (y, m, d)"
  shows "ymd_text (strip s) y m d"
proof -
  from re_ymd_elim [OF assms] obtain a b t where e: "strip s = a @ t @ b"
    and a: "list_all isspace a" and b: "list_all isspace b" and t: "ymd_text t y m d"
    by blast
  from strip_decomp [of s] obtain a' b' where s: "s = a' @ strip s @ b'"
    and a': "list_all isspace a'" and b': "list_all isspace b'"
    by blast
  have "list_all isspace (a' @ a)" and "list_all isspace (b @ b')"
    using a a' b b' by simp_all
  then have "strip ((a' @ a) @ t @ (b @ b')) = t"
    using ymd_text_ends [OF t] by (rule strip_exact)
  moreover have "(a' @ a) @ t @ (b @ b') = a' @ (a @ t @ b) @ b'"
    by simp
  ultimately have "strip (a' @ strip s @ b') = t"
    by (simp only: e)
  moreover have "strip s = strip (a' @ strip s @ b')"
    by (rule arg_cong [OF s])
  ultimately have "strip s = t"
    by (rule trans [rotated])
  with t show ?thesis
    by simp
qed

lemma re_ymd_strip_2:
  assumes "ymd_text (strip s) y m d"
  shows "re_ymd (strip s) = Some (y, m, d)"
proof -
  have "list_all isspace []"
    by simp
  from re_ymd_intro [OF this this assms] show ?thesis
    by simp
qed

lemma re_ymd_strip:
  "re_ymd (strip s) = Some (y, m, d) \<longleftrightarrow> ymd_text (strip s) y m d"
  using re_ymd_strip_1 re_ymd_strip_2 by blast

lemma is_permanent_unblock_date_iff:
  "is_permanent_unblock_date s \<longleftrightarrow>
     (\<exists>y m d yv. ymd_text (strip s) y m d \<and> int_of_digits y = Some yv \<and> 2079 \<le> yv)"
proof -
  have ne: "strip s \<noteq> []" if "ymd_text (strip s) y m d" for y m d
    using ymd_text_ends(1) [OF that] .
  show ?thesis
  proof (cases "re_ymd (strip s)")
    case None
    then have "\<not> ymd_text (strip s) y m d" for y m d
      using re_ymd_strip [of s y m d] by simp
    with None show ?thesis
      by (simp add: is_permanent_unblock_date_def Let_def)
  next
    case (Some p)
    obtain y m d where p: "p = (y, m, d)"
      by (cases p)
    with Some have t: "ymd_text (strip s) y m d"
      using re_ymd_strip by simp
    have u: "y' = y" if "ymd_text (strip s) y' m' d'" for y' m' d'
      using that Some p re_ymd_strip [of s y' m' d'] by simp
    show ?thesis
    proof (cases "int_of_digits y")
      case None
      with u have "\<not> (\<exists>y m d yv. ymd_text (strip s) y m d \<and> int_of_digits y = Some yv \<and> 2079 \<le> yv)"
        by fastforce
      moreover have "\<not> is_permanent_unblock_date s"
        using None Some p by (simp add: is_permanent_unblock_date_def Let_def)
      ultimately show ?thesis
        by simp
    next
      case (Some yv)
      have "(\<exists>y m d yv. ymd_text (strip s) y m d \<and> int_of_digits y = Some yv \<and> 2079 \<le> yv)
          \<longleftrightarrow> 2079 \<le> yv"
        using t u Some by (metis option.inject)
      moreover have "is_permanent_unblock_date s \<longleftrightarrow> 2079 \<le> yv"
        using Some \<open>re_ymd (strip s) = Some p\<close> p ne [OF t]
        by (simp add: is_permanent_unblock_date_def Let_def)
      ultimately show ?thesis
        by simp
    qed
  qed
qed

lemmas date_eval = digit_value_def decimal_blocks_def is_digit_def int_of_digits_def
  re_ymd_def re_digits_def re_char_def is_permanent_unblock_date_def
  is_leap_def days_before_year_def DAYS_IN_MONTH_def DAYS_BEFORE_MONTH_def days_in_month_def
  days_before_month_def toordinal_def make_date_def in_range_def year_alts_def char_alts_def
  month_alts_def day_alts_def strptime_matches_def strptime_ymd_def parse_ymd_def
  app_is_permanent_unblock_date_def is_7day_lock_def strip_def isspace_def ascii_def Let_def

lemma is_7day_lock_iff:
  "is_7day_lock fromiso bd ud \<longleftrightarrow>
     (\<exists>b u. parse_ymd fromiso bd = Some b \<and> parse_ymd fromiso ud = Some u \<and> d_year u < 2079
        \<and> 1 \<le> toordinal u - toordinal b \<and> toordinal u - toordinal b \<le> 7)"
  by (auto simp: is_7day_lock_def split: option.splits)

lemma app_is_permanent_unblock_date_iff:
  "app_is_permanent_unblock_date fromiso ud \<longleftrightarrow>
     (\<exists>u. parse_ymd fromiso ud = Some u \<and> 2079 \<le> d_year u)"
  by (auto simp: app_is_permanent_unblock_date_def split: option.splits)

text \<open>
  The list sync's own test for a permanent block reads the year off the text and does
  not check month and day against the calendar, so it accepts texts that the
  dashboard's classifier does not take for a date.
\<close>

lemma sync_test_accepts_non_date:
  "is_permanent_unblock_date (ascii ''2079/13/45'')
   \<and> classify fromiso bd (ascii ''2079/13/45'') = Other"
proof -
  have "is_permanent_unblock_date (ascii ''2079/13/45'')"
    by (simp add: date_eval)
  moreover have "parse_ymd fromiso (ascii ''2079/13/45'') = None"
    by (simp add: date_eval)
  then have "classify fromiso bd (ascii ''2079/13/45'') = Other"
    by (simp add: classify_def app_is_permanent_unblock_date_iff is_7day_lock_iff)
  ultimately show ?thesis
    by simp
qed



subsection \<open>Cursor discipline of the list sync\<close>

lemma day_step_unreadable:
  assumes "day_names fetch po d = None"
  shows "\<exists>e. day_step fetch appl world server_name server_id po rnl d a st
      = (Inl e, log_effect (EFetch d) st)"
  using assms
  by (auto simp: day_step_def day_names_def Let_def split: sum.splits if_splits)

lemma day_step_no_names:
  assumes "day_names fetch po d = Some {}"
  shows "\<exists>a'. day_step fetch appl world server_name server_id po rnl d a st
      = (Inr a', set_blacklist_last_sync_date world server_name server_id d
           (log_effect (EFetch d) st))"
  using assms
  by (auto simp: day_step_def day_names_def Let_def split: sum.splits if_splits)

lemma day_step_apply_raises:
  assumes "day_names fetch po d = Some names" and "names \<noteq> {}"
    and "appl names (entity_store st) = Inl e"
  shows "day_step fetch appl world server_name server_id po rnl d a st
      = (Inl e, log_effect (EApply d) (log_effect (EFetch d) st))"
  using assms
  by (auto simp: day_step_def day_names_def Let_def log_effect_def split: sum.splits if_splits)

lemma day_step_applied:
  assumes "day_names fetch po d = Some names" and "names \<noteq> {}"
    and "appl names (entity_store st) = Inr (db', matched, sample)"
  shows "\<exists>a'. day_step fetch appl world server_name server_id po rnl d a st
      = (Inr a', set_blacklist_last_sync_date world server_name server_id d
           ((log_effect (EApply d) (log_effect (EFetch d) st))\<lparr>entity_store := db'\<rparr>))"
  using assms
  by (auto simp: day_step_def day_names_def Let_def log_effect_def split: sum.splits if_splits)

lemma day_step_ok:
  assumes "day_step fetch appl world server_name server_id po rnl d a st = (Inr a', st')"
  shows "effects st' = effects st @ day_effects fetch po d"
    and "get_blacklist_last_sync_date st' world = Some d"
    and "day_names fetch po d \<noteq> None"
    and "apply_day fetch appl po d (entity_store st) = Some (entity_store st')"
proof -
  have "effects st' = effects st @ day_effects fetch po d
      \<and> get_blacklist_last_sync_date st' world = Some d
      \<and> day_names fetch po d \<noteq> None
      \<and> apply_day fetch appl po d (entity_store st) = Some (entity_store st')"
  proof (cases "day_names fetch po d")
    case None
    from day_step_unreadable [OF None, of appl world server_name server_id rnl a st] assms
    show ?thesis
      by simp
  next
    case (Some names)
    show ?thesis
    proof (cases "names = {}")
      case True
      from day_step_no_names [OF Some [unfolded True], of appl world server_name server_id rnl a st]
        assms
      have "st' = set_blacklist_last_sync_date world server_name server_id d
          (log_effect (EFetch d) st)"
        by auto
      with Some True show ?thesis
        by (simp add: day_effects_def apply_day_def log_effect_def
            set_blacklist_last_sync_date_def get_blacklist_last_sync_date_def)
    next
      case False
      show ?thesis
      proof (cases "appl names (entity_store st)")
        case (Inl e)
        from day_step_apply_raises [where appl = appl and st = st and world = world and server_name = server_name
            and server_id = server_id and rnl = rnl and a = a, OF Some False Inl] assms
        show ?thesis
          by simp
      next
        case (Inr out)
        obtain db' matched sample where out: "out = (db', matched, sample)"
          by (cases out)
        from day_step_applied [where appl = appl and st = st and world = world and server_name = server_name
            and server_id = server_id and rnl = rnl and a = a, OF Some False Inr [unfolded out]]
          assms
        have "st' = set_blacklist_last_sync_date world server_name server_id d
            ((log_effect (EApply d) (log_effect (EFetch d) st))\<lparr>entity_store := db'\<rparr>)"
          by auto
        with Some False Inr out show ?thesis
          by (simp add: day_effects_def apply_day_def log_effect_def
              set_blacklist_last_sync_date_def get_blacklist_last_sync_date_def)
      qed
    qed
  qed
  then show "effects st' = effects st @ day_effects fetch po d"
    and "get_blacklist_last_sync_date st' world = Some d"
    and "day_names fetch po d \<noteq> None"
    and "apply_day fetch appl po d (entity_store st) = Some (entity_store st')"
    by simp_all
qed

lemma day_step_fail:
  assumes "day_step fetch appl world server_name server_id po rnl d a st = (Inl e, st')"
  shows "\<exists>p. effects st' = effects st @ p \<and> partial_day d p"
    and "sync_log st' = sync_log st"
    and "entity_store st' = entity_store st"
    and "apply_day fetch appl po d (entity_store st) = None"
proof -
  have "(\<exists>p. effects st' = effects st @ p \<and> partial_day d p)
      \<and> sync_log st' = sync_log st
      \<and> entity_store st' = entity_store st
      \<and> apply_day fetch appl po d (entity_store st) = None"
  proof (cases "day_names fetch po d")
    case None
    from day_step_unreadable [OF None, of appl world server_name server_id rnl a st] assms
    have "st' = log_effect (EFetch d) st"
      by auto
    with None show ?thesis
      by (simp add: apply_day_def log_effect_def partial_day_def)
  next
    case (Some names)
    show ?thesis
    proof (cases "names = {}")
      case True
      from day_step_no_names [OF Some [unfolded True], of appl world server_name server_id rnl a st]
        assms
      show ?thesis
        by auto
    next
      case False
      show ?thesis
      proof (cases "appl names (entity_store st)")
        case (Inl e')
        from day_step_apply_raises [where appl = appl and st = st and world = world and server_name = server_name
            and server_id = server_id and rnl = rnl and a = a, OF Some False Inl] assms
        have "st' = log_effect (EApply d) (log_effect (EFetch d) st)"
          by simp
        with Some False Inl show ?thesis
          by (simp add: apply_day_def log_effect_def partial_day_def)
      next
        case (Inr out)
        obtain db' matched sample where out: "out = (db', matched, sample)"
          by (cases out)
        from day_step_applied [where appl = appl and st = st and world = world and server_name = server_name
            and server_id = server_id and rnl = rnl and a = a, OF Some False Inr [unfolded out]]
          assms
        show ?thesis
          by auto
      qed
    qed
  qed
  then show "\<exists>p. effects st' = effects st @ p \<and> partial_day d p"
    and "sync_log st' = sync_log st"
    and "entity_store st' = entity_store st"
    and "apply_day fetch appl po d (entity_store st) = None"
    by simp_all
qed

lemma sync_days_trace:
  assumes "sync_days fetch appl world server_name server_id po rnl latest cur a st = (res, st')"
    and "cur \<le> latest + 1"
  shows "\<exists>k. cur - 1 \<le> k \<and> k \<le> latest
      \<and> (\<forall>d. cur \<le> d \<and> d \<le> k \<longrightarrow> day_names fetch po d \<noteq> None)
      \<and> get_blacklist_last_sync_date st' world
          = (if cur \<le> k then Some k else get_blacklist_last_sync_date st world)
      \<and> apply_days fetch appl po [cur..k] (entity_store st) = Some (entity_store st')
      \<and> (case res of
            Inr a' \<Rightarrow> k = latest
              \<and> effects st' = effects st @ concat (map (day_effects fetch po) [cur..k])
          | Inl e \<Rightarrow> k < latest
              \<and> apply_day fetch appl po (k + 1) (entity_store st') = None
              \<and> (\<exists>p. effects st' = effects st @ concat (map (day_effects fetch po) [cur..k]) @ p
                    \<and> partial_day (k + 1) p))"
  using assms
proof (induction fetch appl world server_name server_id po rnl latest cur a st
    rule: sync_days.induct)
  case (1 fetch appl world server_name server_id po rnl latest cur a st)
  show ?case
  proof (cases "cur \<le> latest")
    case False
    with "1.prems" have "res = Inr a" and "st' = st" and "cur = latest + 1"
      by (simp_all add: sync_days.simps)
    then show ?thesis
      by (intro exI [of _ latest]) auto
  next
    case True
    obtain r1 st1 where ds: "day_step fetch appl world server_name server_id po rnl cur a st = (r1, st1)"
      by (cases "day_step fetch appl world server_name server_id po rnl cur a st")
    show ?thesis
    proof (cases r1)
      case (Inl e)
      with "1.prems" True ds have r: "res = Inl e" "st' = st1"
        by (simp_all add: sync_days.simps)
      from day_step_fail [OF ds [unfolded Inl]] obtain p
        where "effects st1 = effects st @ p" "partial_day cur p" "sync_log st1 = sync_log st"
          "entity_store st1 = entity_store st"
          "apply_day fetch appl po cur (entity_store st) = None"
        by blast
      with r True show ?thesis
        by (intro exI [of _ "cur - 1"]) (auto simp: get_blacklist_last_sync_date_def)
    next
      case (Inr a1)
      with "1.prems" True ds
      have rec: "sync_days fetch appl world server_name server_id po rnl latest (cur + 1) a1 st1
          = (res, st')"
        by (simp add: sync_days.simps)
      from day_step_ok [OF ds [unfolded Inr]]
      have e1: "effects st1 = effects st @ day_effects fetch po cur"
        and c1: "get_blacklist_last_sync_date st1 world = Some cur"
        and n1: "day_names fetch po cur \<noteq> None"
        and a1: "apply_day fetch appl po cur (entity_store st) = Some (entity_store st1)"
        by simp_all
      from "1.IH" [OF True ds [symmetric] Inr rec] True
      obtain k where k: "cur \<le> k" "k \<le> latest"
        and n: "\<forall>d. cur + 1 \<le> d \<and> d \<le> k \<longrightarrow> day_names fetch po d \<noteq> None"
        and c: "get_blacklist_last_sync_date st' world
          = (if cur + 1 \<le> k then Some k else get_blacklist_last_sync_date st1 world)"
        and s: "apply_days fetch appl po [cur + 1..k] (entity_store st1) = Some (entity_store st')"
        and t: "(case res of
            Inr a' \<Rightarrow> k = latest
              \<and> effects st' = effects st1 @ concat (map (day_effects fetch po) [cur + 1..k])
          | Inl e \<Rightarrow> k < latest
              \<and> apply_day fetch appl po (k + 1) (entity_store st') = None
              \<and> (\<exists>p. effects st' = effects st1 @ concat (map (day_effects fetch po) [cur + 1..k]) @ p
                    \<and> partial_day (k + 1) p))"
        by auto
      have u: "[cur..k] = cur # [cur + 1..k]"
        using k(1) by (simp add: upto_rec1)
      have c': "get_blacklist_last_sync_date st' world = Some k"
        using c c1 k(1) by (cases "cur + 1 \<le> k") auto
      have s': "apply_days fetch appl po [cur..k] (entity_store st) = Some (entity_store st')"
        using s a1 by (simp add: u)
      have n': "\<forall>d. cur \<le> d \<and> d \<le> k \<longrightarrow> day_names fetch po d \<noteq> None"
      proof (intro allI impI)
        fix d assume "cur \<le> d \<and> d \<le> k"
        then have "d = cur \<or> (cur + 1 \<le> d \<and> d \<le> k)"
          by arith
        with n n1 show "day_names fetch po d \<noteq> None"
          by blast
      qed
      show ?thesis
        using k c' t n' s'
        by (intro exI [of _ k]) (auto simp: u e1 split: sum.splits)
    qed
  qed
qed

lemma cursor_writes_append: "cursor_writes (xs @ ys) = cursor_writes xs @ cursor_writes ys"
  by (induction xs rule: cursor_writes.induct) simp_all

lemma fetched_days_append: "fetched_days (xs @ ys) = fetched_days xs @ fetched_days ys"
  by (induction xs rule: fetched_days.induct) simp_all

lemma cursor_writes_day:
  "day_names fetch po d \<noteq> None \<Longrightarrow> cursor_writes (day_effects fetch po d) = [d]"
  by (auto simp: day_effects_def)

lemma fetched_days_day:
  "day_names fetch po d \<noteq> None \<Longrightarrow> fetched_days (day_effects fetch po d) = [d]"
  by (auto simp: day_effects_def)

lemma cursor_writes_days:
  "\<forall>d \<in> set ds. day_names fetch po d \<noteq> None
   \<Longrightarrow> cursor_writes (concat (map (day_effects fetch po) ds)) = ds"
  by (induction ds) (simp_all add: cursor_writes_append cursor_writes_day)

lemma fetched_days_days:
  "\<forall>d \<in> set ds. day_names fetch po d \<noteq> None
   \<Longrightarrow> fetched_days (concat (map (day_effects fetch po) ds)) = ds"
  by (induction ds) (simp_all add: fetched_days_append fetched_days_day)

lemma cursor_writes_partial: "partial_day d p \<Longrightarrow> cursor_writes p = []"
  by (auto simp: partial_day_def)

text \<open>
  C4, as amended. Let \<open>latest\<close> be the latest available day and \<open>start\<close> the day after the
  persisted cursor, or the configured first start date when no cursor is persisted. When
  \<open>latest\<close> is before the first start date or before \<open>start\<close>, the run changes nothing and
  reports "nothing to do", which is not a report of processed days. Otherwise the run
  opens the session and processes the days \<open>start\<close>, \<open>start + 1\<close>, ... in ascending
  order up to some day \<open>k\<close>: for each of them it fetches, applies the day's names to the
  entity store when there is a name, and only when that has succeeded writes the cursor
  for that day, before the next day begins. So the cursor values written are exactly
  \<open>start, ..., k\<close>, the cursor ends at \<open>k\<close> (or stays as it was when no day completed),
  and the entity store at the end is the store at the beginning with the days
  \<open>start, ..., k\<close> applied to it in this order, each of them successfully. A run that
  returns has \<open>k = latest\<close> and reports the days from \<open>start\<close> to \<open>latest\<close>. A run ended
  by an exception either failed to open the session, with no day begun, or leaves the
  begun day \<open>k + 1\<close> behind: that day could not be fully applied (its listing could not be
  fetched or read, or applying its names raised), the entity store is as the day \<open>k\<close> left
  it, and no cursor is written for it.
\<close>

theorem sync_blacklist_cursor_discipline:
  assumes "sync_blacklist_incremental init fetch appl now world server_name first_start_date
             po rnl st = (res, st')"
    and "latest = latest_available_block_date now"
    and "start = (case get_blacklist_last_sync_date st world of
                    Some l \<Rightarrow> l + 1 | None \<Rightarrow> first_start_date)"
  shows "(latest < first_start_date \<or> latest < start
            \<longrightarrow> st' = st \<and> (\<exists>reason s l. res = Inr (NotRan reason s l)))
     \<and> (first_start_date \<le> latest \<and> start \<le> latest \<longrightarrow>
          (\<exists>k new. start - 1 \<le> k \<and> k \<le> latest
             \<and> effects st' = effects st @ EInit # new
             \<and> cursor_writes new = [start..k]
             \<and> get_blacklist_last_sync_date st' world
                 = (if start \<le> k then Some k else get_blacklist_last_sync_date st world)
             \<and> apply_days fetch appl po [start..k] (entity_store st) = Some (entity_store st')
             \<and> (case res of
                   Inr r \<Rightarrow> k = latest
                     \<and> new = concat (map (day_effects fetch po) [start..latest])
                     \<and> (\<exists>rep. r = Ran rep \<and> r_start rep = start \<and> r_end rep = latest
                            \<and> r_total_days rep = latest - start + 1)
                 | Inl e \<Rightarrow> k < latest
                     \<and> (\<exists>p. new = concat (map (day_effects fetch po) [start..k]) @ p
                            \<and> (if init = Inl e then p = [] \<and> k = start - 1
                                else partial_day (k + 1) p
                                  \<and> apply_day fetch appl po (k + 1) (entity_store st') = None)))))"
proof (rule conjI; rule impI)
  assume a: "latest < first_start_date \<or> latest < start"
  from assms(1) a [unfolded assms(2,3)]
  show "st' = st \<and> (\<exists>reason s l. res = Inr (NotRan reason s l))"
    by (auto simp: sync_blacklist_incremental_def Let_def split: if_splits)
next
  assume ok: "first_start_date \<le> latest \<and> start \<le> latest"
  let ?st0 = "log_effect EInit st"
  let ?acc0 = "\<lparr>done_days = 0, scanned_total_names = 0, scanned_effective_names = 0,
      applied_matched_total = 0, matched_names_union = []\<rparr>"
  have c0: "get_blacklist_last_sync_date ?st0 world = get_blacklist_last_sync_date st world"
    and e0: "effects ?st0 = effects st @ [EInit]"
    and d0: "entity_store ?st0 = entity_store st"
    by (simp_all add: log_effect_def get_blacklist_last_sync_date_def)
  show "\<exists>k new. start - 1 \<le> k \<and> k \<le> latest
             \<and> effects st' = effects st @ EInit # new
             \<and> cursor_writes new = [start..k]
             \<and> get_blacklist_last_sync_date st' world
                 = (if start \<le> k then Some k else get_blacklist_last_sync_date st world)
             \<and> apply_days fetch appl po [start..k] (entity_store st) = Some (entity_store st')
             \<and> (case res of
                   Inr r \<Rightarrow> k = latest
                     \<and> new = concat (map (day_effects fetch po) [start..latest])
                     \<and> (\<exists>rep. r = Ran rep \<and> r_start rep = start \<and> r_end rep = latest
                            \<and> r_total_days rep = latest - start + 1)
                 | Inl e \<Rightarrow> k < latest
                     \<and> (\<exists>p. new = concat (map (day_effects fetch po) [start..k]) @ p
                            \<and> (if init = Inl e then p = [] \<and> k = start - 1
                                else partial_day (k + 1) p
                                  \<and> apply_day fetch appl po (k + 1) (entity_store st') = None)))"
  proof (cases init)
    case (Inl e)
    with assms ok have "res = Inl e" and "st' = ?st0"
      by (auto simp: sync_blacklist_incremental_def Let_def)
    with ok e0 c0 d0 Inl show ?thesis
      by (intro exI [of _ "start - 1"] exI [of _ "[]"]) simp
  next
    case (Inr tok)
    obtain csrf server_id where tok: "tok = (csrf, server_id)"
      by (cases tok)
    obtain r1 st1 where sd: "sync_days fetch appl world server_name server_id po rnl latest
        start ?acc0 ?st0 = (r1, st1)"
      by (cases "sync_days fetch appl world server_name server_id po rnl latest start ?acc0 ?st0")
    from ok have "start \<le> latest + 1"
      by simp
    from sync_days_trace [OF sd this] obtain k where k: "start - 1 \<le> k" "k \<le> latest"
      and n: "\<forall>d. start \<le> d \<and> d \<le> k \<longrightarrow> day_names fetch po d \<noteq> None"
      and c: "get_blacklist_last_sync_date st1 world
          = (if start \<le> k then Some k else get_blacklist_last_sync_date ?st0 world)"
      and s: "apply_days fetch appl po [start..k] (entity_store ?st0) = Some (entity_store st1)"
      and t: "(case r1 of
            Inr a' \<Rightarrow> k = latest
              \<and> effects st1 = effects ?st0 @ concat (map (day_effects fetch po) [start..k])
          | Inl e \<Rightarrow> k < latest
              \<and> apply_day fetch appl po (k + 1) (entity_store st1) = None
              \<and> (\<exists>p. effects st1 = effects ?st0 @ concat (map (day_effects fetch po) [start..k]) @ p
                    \<and> partial_day (k + 1) p))"
      by blast
    from n have cw: "cursor_writes (concat (map (day_effects fetch po) [start..k])) = [start..k]"
      by (intro cursor_writes_days) simp
    show ?thesis
    proof (cases r1)
      case (Inl e)
      with assms ok Inr tok sd have r: "res = Inl e" "st' = st1"
        by (auto simp: sync_blacklist_incremental_def Let_def)
      from t Inl obtain p where p: "k < latest"
        "effects st1 = effects ?st0 @ concat (map (day_effects fetch po) [start..k]) @ p"
        "partial_day (k + 1) p"
        "apply_day fetch appl po (k + 1) (entity_store st1) = None"
        by auto
      show ?thesis
        using k p c cw r s \<open>init = Inr tok\<close>
        by (intro exI [of _ k] exI [of _ "concat (map (day_effects fetch po) [start..k]) @ p"])
          (auto simp: e0 c0 d0 cursor_writes_append cursor_writes_partial)
    next
      case (Inr a1)
      with assms ok \<open>init = Inr tok\<close> tok sd
      have r: "\<exists>rep. res = Inr (Ran rep) \<and> r_start rep = start \<and> r_end rep = latest
          \<and> r_total_days rep = latest - start + 1" "st' = st1"
        by (auto simp: sync_blacklist_incremental_def Let_def)
      from t Inr have p: "k = latest"
        "effects st1 = effects ?st0 @ concat (map (day_effects fetch po) [start..k])"
        by auto
      show ?thesis
        using k p c cw r s
        by (intro exI [of _ k] exI [of _ "concat (map (day_effects fetch po) [start..k])"])
          (auto simp: e0 c0 d0)
    qed
  qed
qed

lemmas sync_eval = sync_blacklist_incremental_def latest_available_block_date_def dt_less_def
  dt_key_def dt_combine_def less_prod_def get_blacklist_last_sync_date_def
  set_blacklist_last_sync_date_def log_effect_def day_step_def sync_days.simps str_field_def
  py_or_def dget_def ex_world_def ex_row_def ex_fetch_def ex_apply_def ex_init_def ex_now_def
  ex_sync_state_def ex_purge_def ex_purge_fail_def ex_list_state_def

text \<open>
  C4 as stated fails: with the cursor at 2025-11-28, the first start date 2025-12-03 and
  the latest available day 2025-12-05, the run starts at 2025-11-29, not at the later of
  the first start date and the day after the cursor.
\<close>

theorem sync_blacklist_start_counterexample:
  "get_blacklist_last_sync_date (ex_sync_state 739583) ex_world = Some 739583
   \<and> latest_available_block_date ex_now = 739590
   \<and> fetched_days (effects (snd (sync_blacklist_incremental ex_init ex_fetch ex_apply ex_now
         ex_world (ascii ''S'') 739588 True 3000 (ex_sync_state 739583))))
       = [739584, 739585, 739586, 739587, 739588, 739589, 739590]
   \<and> max 739588 (739583 + 1) = (739588 :: int)"
  by (simp add: sync_eval date_eval)

theorem sync_blacklist_cursor_discipline_witness:
  "(739588 :: int) \<le> 739590 \<and> (739588 + 1 :: int) \<le> 739590
   \<and> fst (sync_blacklist_incremental ex_init ex_fetch ex_purge ex_now ex_world (ascii ''S'')
          739588 True 3000 (ex_list_state 739588))
       = Inr (Ran \<lparr>r_server_id = ascii ''7'', r_start = 739589, r_end = 739590, r_total_days = 2,
            r_scanned_total_names = 1, r_scanned_effective_names = 1,
            r_applied_matched_total = 1, r_matched_names_sample = [ascii ''Bad'']\<rparr>)
   \<and> effects (snd (sync_blacklist_incremental ex_init ex_fetch ex_purge ex_now ex_world
          (ascii ''S'') 739588 True 3000 (ex_list_state 739588)))
       = [EInit, EFetch 739589, ECursor 739589, EFetch 739590, EApply 739590, ECursor 739590]
   \<and> get_blacklist_last_sync_date
         (snd (sync_blacklist_incremental ex_init ex_fetch ex_purge ex_now ex_world
            (ascii ''S'') 739588 True 3000 (ex_list_state 739588))) ex_world = Some 739590
   \<and> entity_store
         (snd (sync_blacklist_incremental ex_init ex_fetch ex_purge ex_now ex_world
            (ascii ''S'') 739588 True 3000 (ex_list_state 739588))) = [ascii ''Good'']
   \<and> (739590 :: int) < 739590 + 1
   \<and> sync_blacklist_incremental ex_init ex_fetch ex_purge ex_now ex_world (ascii ''S'')
          739588 True 3000 (ex_list_state 739590)
       = (Inr (NotRan (ascii ''up-to-date'') (Some 739591) (Some 739590)), ex_list_state 739590)
   \<and> fst (sync_blacklist_incremental ex_init ex_fetch ex_purge_fail ex_now ex_world (ascii ''S'')
          739588 True 3000 (ex_list_state 739588)) = Inl RuntimeError
   \<and> effects (snd (sync_blacklist_incremental ex_init ex_fetch ex_purge_fail ex_now ex_world
          (ascii ''S'') 739588 True 3000 (ex_list_state 739588)))
       = [EInit, EFetch 739589, ECursor 739589, EFetch 739590, EApply 739590]
   \<and> get_blacklist_last_sync_date
         (snd (sync_blacklist_incremental ex_init ex_fetch ex_purge_fail ex_now ex_world
            (ascii ''S'') 739588 True 3000 (ex_list_state 739588))) ex_world = Some 739589
   \<and> entity_store
         (snd (sync_blacklist_incremental ex_init ex_fetch ex_purge_fail ex_now ex_world
            (ascii ''S'') 739588 True 3000 (ex_list_state 739588))) = [ascii ''Bad'', ascii ''Good'']"
proof -
  let ?run1 = "sync_blacklist_incremental ex_init ex_fetch ex_purge ex_now ex_world (ascii ''S'')
          739588 True 3000 (ex_list_state 739588)"
  let ?run2 = "sync_blacklist_incremental ex_init ex_fetch ex_purge ex_now ex_world (ascii ''S'')
          739588 True 3000 (ex_list_state 739590)"
  let ?run3 = "sync_blacklist_incremental ex_init ex_fetch ex_purge_fail ex_now ex_world (ascii ''S'')
          739588 True 3000 (ex_list_state 739588)"
  have l: "latest_available_block_date ex_now = 739590"
    by (simp add: sync_eval)
  have s1: "get_blacklist_last_sync_date (ex_list_state 739588) ex_world = Some 739588"
    and s2: "get_blacklist_last_sync_date (ex_list_state 739590) ex_world = Some 739590"
    by (simp_all add: get_blacklist_last_sync_date_def ex_list_state_def)
  have d1: "entity_store (ex_list_state 739588) = [ascii ''Bad'', ascii ''Good'']"
    by (simp add: ex_list_state_def)
  have r1: "fst ?run1
       = Inr (Ran \<lparr>r_server_id = ascii ''7'', r_start = 739589, r_end = 739590, r_total_days = 2,
            r_scanned_total_names = 1, r_scanned_effective_names = 1,
            r_applied_matched_total = 1, r_matched_names_sample = [ascii ''Bad'']\<rparr>)"
    and e1: "effects (snd ?run1)
       = [EInit, EFetch 739589, ECursor 739589, EFetch 739590, EApply 739590, ECursor 739590]"
    by (simp_all add: sync_eval date_eval)
  have a89: "apply_day ex_fetch appl True 739589 db = Some db" for appl and db :: "pystr list"
    by (simp add: apply_day_def day_names_def ex_fetch_def)
  have a90: "apply_day ex_fetch ex_purge True 739590 [ascii ''Bad'', ascii ''Good'']
      = Some [ascii ''Good'']"
    by (simp add: apply_day_def day_names_def ex_fetch_def ex_row_def ex_purge_def str_field_def
        py_or_def dget_def date_eval)
  have u: "[739589..739590] = [739589, 739590 :: int]" "[739589..739589] = [739589 :: int]"
    "[739589..739588 :: int] = []"
    by (simp_all add: upto.simps)
  note t1 = sync_blacklist_cursor_discipline [OF surjective_pairing refl refl,
      where init = ex_init and fetch = ex_fetch and appl = ex_purge and now = ex_now
        and world = ex_world and server_name = "ascii ''S''" and first_start_date = 739588
        and po = True and rnl = 3000 and st = "ex_list_state 739588"]
  from t1 have c1: "get_blacklist_last_sync_date (snd ?run1) ex_world = Some 739590"
    by (auto simp: l s1 r1)
  from t1 have "apply_days ex_fetch ex_purge True [739589..739590]
      (entity_store (ex_list_state 739588)) = Some (entity_store (snd ?run1))"
    by (auto simp: l s1 r1)
  then have g1: "entity_store (snd ?run1) = [ascii ''Good'']"
    by (simp add: u d1 a89 a90)
  have f2: "fst ?run2 = Inr (NotRan (ascii ''up-to-date'') (Some 739591) (Some 739590))"
    by (simp add: sync_eval)
  from sync_blacklist_cursor_discipline [OF surjective_pairing refl refl,
      where init = ex_init and fetch = ex_fetch and appl = ex_purge and now = ex_now
        and world = ex_world and server_name = "ascii ''S''" and first_start_date = 739588
        and po = True and rnl = 3000 and st = "ex_list_state 739590"]
  have "snd ?run2 = ex_list_state 739590"
    by (simp add: l s2)
  with f2 have r2: "?run2
      = (Inr (NotRan (ascii ''up-to-date'') (Some 739591) (Some 739590)), ex_list_state 739590)"
    by (simp add: prod_eq_iff)
  have r3: "fst ?run3 = Inl RuntimeError"
    and e3: "effects (snd ?run3)
       = [EInit, EFetch 739589, ECursor 739589, EFetch 739590, EApply 739590]"
    and c3: "get_blacklist_last_sync_date (snd ?run3) ex_world = Some 739589"
    by (simp_all add: sync_eval date_eval)
  from sync_blacklist_cursor_discipline [OF surjective_pairing refl refl,
      where init = ex_init and fetch = ex_fetch and appl = ex_purge_fail and now = ex_now
        and world = ex_world and server_name = "ascii ''S''" and first_start_date = 739588
        and po = True and rnl = 3000 and st = "ex_list_state 739588"]
  obtain k where k: "739588 \<le> k" "k < 739590"
    and a: "apply_days ex_fetch ex_purge_fail True [739589..k]
      (entity_store (ex_list_state 739588)) = Some (entity_store (snd ?run3))"
    by (auto simp: l s1 r3)
  from k have "k = 739588 \<or> k = 739589"
    by arith
  with a have g3: "entity_store (snd ?run3) = [ascii ''Bad'', ascii ''Good'']"
    by (auto simp: u d1 a89)
  from r1 e1 c1 g1 r2 r3 e3 c3 g3 show ?thesis
    by simp
qed

end
